theory Spec2Isabelle
  imports Complex_Main
begin

section \<open>Data model (app/models/game.py, app/models/user.py)\<close>

text \<open>
  The persisted entities are SQLAlchemy models. Each table is a list of rows in the
  model, primary keys are looked up with \<open>find\<close> (the first row, as \<open>.scalar()\<close>
  returns), integers are Python integers (\<open>int\<close>), and a \<open>datetime\<close> is the number of
  microseconds since the epoch. The \<open>Float\<close> rating column is modelled as a real number:
  the code only ever adds 1.0 and 5.0 to it.
\<close>

datatype RoomStatus = RoomWAITING | RoomPLAYING | RoomFINISHED | RoomCANCELLED

datatype ParticipantStatus = ACTIVE | DISCONNECTED | LEFT

datatype ConnectionStatus = ConnCONNECTED | ConnDISCONNECTED | ConnTIMEOUT

datatype GameStatus =
  STARTING | ROUND_SETUP | CARD_SELECTION | VOTING | ROUND_RESULTS | FINISHED

datatype Gender = MALE | FEMALE | OTHER

text \<open>
  A Python \<open>str\<close> that the code transforms (the room code) is the list of its Unicode
  code points. Texts that are only stored or tested for emptiness are \<open>string\<close>s.
\<close>

type_synonym pystr = "nat list"

record User =
  user_id :: int
  nickname :: "string option"
  birth_date :: "(int \<times> int \<times> int) option"
  gender :: "Gender option"
  rating :: real

record UserCard =
  uc_id :: int
  uc_user_id :: int
  uc_card_type :: string
  uc_card_number :: int
  obtained_at :: int

record Room =
  room_id :: int
  creator_id :: int
  max_players :: int
  room_status :: RoomStatus
  room_code :: "pystr option"
  is_public :: bool
  age_group :: "string option"

record RoomParticipant =
  part_id :: int
  part_room_id :: int
  part_user_id :: int
  joined_at :: int
  part_status :: ParticipantStatus
  connection_status :: ConnectionStatus
  last_activity :: int
  last_ping :: "int option"
  disconnect_count :: int
  missed_actions :: int

record Game =
  game_id :: int
  game_room_id :: int
  game_status :: GameStatus
  current_round :: int
  winner_id :: "int option"
  finished_at :: "int option"

text \<open>
  The situation text of a round is either a text given by the caller or the placeholder
  that \<open>start_round\<close> formats from the round number while the generator job runs.
\<close>

datatype Situation = GivenText string | GeneratingPlaceholder int

record GameRound =
  round_id :: int
  round_game_id :: int
  round_number :: int
  situation_text :: Situation
  duration_seconds :: int
  started_at :: "int option"
  round_finished_at :: "int option"
  selection_deadline :: "int option"
  voting_deadline :: "int option"
  auto_advanced :: bool

record PlayerChoice =
  choice_id :: int
  choice_round_id :: int
  choice_user_id :: int
  card_type :: string
  card_number :: int
  submitted_at :: int

record Vote =
  vote_id :: int
  vote_round_id :: int
  voter_id :: int
  vote_choice_id :: int
  vote_created_at :: int

text \<open>
  The database as one session sees it, pending writes included: the tables, and the next
  value of the primary-key sequence of every table the modelled code inserts into.
\<close>

record db =
  users :: "User list"
  user_cards :: "UserCard list"
  rooms :: "Room list"
  participants :: "RoomParticipant list"
  games :: "Game list"
  rounds :: "GameRound list"
  choices :: "PlayerChoice list"
  votes :: "Vote list"
  next_card_id :: int
  next_participant_id :: int
  next_game_id :: int
  next_round_id :: int
  next_choice_id :: int
  next_vote_id :: int

text \<open>
  What an operation reads from outside the database:
  \<^item> \<open>now\<close>: the value of \<open>datetime.utcnow()\<close>;
  \<^item> \<open>tie_order\<close>: SQL's \<open>ORDER BY count DESC\<close> leaves the order of rows with equal
    counts to the database; rows with equal counts come back by increasing
    \<open>tie_order\<close> of their key (choice id or user id), so every order the database may
    return is the one of some \<open>tie_order\<close>;
  \<^item> \<open>rand\<close>: the random number behind \<open>random.choice\<close>;
  \<^item> \<open>standard_cards\<close>: the card numbers the object store lists in its folder
    \<open>standard\<close> (empty when no store is configured).
\<close>

record env =
  now :: int
  tie_order :: "int \<Rightarrow> int"
  rand :: nat
  standard_cards :: "int list"

text \<open>
  The exceptions of app/utils/exceptions.py that the modelled code raises. The messages are
  Russian texts in the source; the model carries a short English tag instead.
  \<open>InternalError\<close> stands for a Python exception that is no \<open>AppException\<close>
  (\<open>TypeError\<close>, \<open>AttributeError\<close>).
\<close>

datatype error =
  NotFoundError string
| ValidationError string
| PermissionError string
| InternalError string

text \<open>
  An operation that can raise after it has written returns the exception, if any, together
  with the state of the session at that point.
\<close>

type_synonym outcome = "error option \<times> db"

definition seconds :: "int \<Rightarrow> int" where
  "seconds n = n * 1000000"

section \<open>Player presence (app/services/player_manager.py)\<close>

definition TIMEOUT_SECONDS :: int where "TIMEOUT_SECONDS = 30"
definition MAX_DISCONNECT_COUNT :: int where "MAX_DISCONNECT_COUNT = 3"
definition MAX_MISSED_ACTIONS :: int where "MAX_MISSED_ACTIONS = 2"

definition find_user :: "db \<Rightarrow> int \<Rightarrow> User option" where
  "find_user s uid = find (\<lambda>u. user_id u = uid) (users s)"

definition find_participant :: "db \<Rightarrow> int \<Rightarrow> int \<Rightarrow> RoomParticipant option" where
  "find_participant s uid rid =
     find (\<lambda>p. part_user_id p = uid \<and> part_room_id p = rid) (participants s)"

definition update_participant ::
  "db \<Rightarrow> int \<Rightarrow> (RoomParticipant \<Rightarrow> RoomParticipant) \<Rightarrow> db" where
  "update_participant s pid f =
     s\<lparr>participants := map (\<lambda>q. if part_id q = pid then f q else q) (participants s)\<rparr>"

definition update_player_activity :: "env \<Rightarrow> db \<Rightarrow> int \<Rightarrow> int \<Rightarrow> db" where
  "update_player_activity e s uid rid =
     s\<lparr>participants :=
         map (\<lambda>q. if part_user_id q = uid \<and> part_room_id q = rid
                   then q\<lparr>last_activity := now e, last_ping := Some (now e),
                          connection_status := ConnCONNECTED\<rparr>
                   else q)
             (participants s)\<rparr>"

text \<open>The dictionary both presence operations return, restricted to the fields the callers read.\<close>

record decision =
  excluded :: bool
  counter :: int
  new_status :: "ParticipantStatus option"

definition mark_player_disconnected ::
  "env \<Rightarrow> db \<Rightarrow> int \<Rightarrow> int \<Rightarrow> error + (decision \<times> db)" where
  "mark_player_disconnected e s uid rid =
     (case find_participant s uid rid of
        None \<Rightarrow> Inl (NotFoundError ''player not in room'')
      | Some participant \<Rightarrow>
          let new_disconnect_count = disconnect_count participant + 1;
              should_exclude = (new_disconnect_count \<ge> MAX_DISCONNECT_COUNT);
              new_st = (if should_exclude then LEFT else DISCONNECTED)
          in Inr (\<lparr>excluded = should_exclude, counter = new_disconnect_count,
                    new_status = Some new_st\<rparr>,
                  update_participant s (part_id participant)
                    (\<lambda>q. q\<lparr>connection_status := ConnDISCONNECTED, part_status := new_st,
                           disconnect_count := new_disconnect_count,
                           last_activity := now e\<rparr>)))"

definition handle_missed_action :: "env \<Rightarrow> db \<Rightarrow> int \<Rightarrow> int \<Rightarrow> decision \<times> db" where
  "handle_missed_action e s uid rid =
     (case find_participant s uid rid of
        None \<Rightarrow> (\<lparr>excluded = False, counter = 0, new_status = None\<rparr>, s)
      | Some participant \<Rightarrow>
          let new_missed_actions = missed_actions participant + 1;
              should_exclude = (new_missed_actions \<ge> MAX_MISSED_ACTIONS);
              new_st = (if should_exclude then LEFT else part_status participant);
              new_connection_status =
                (if \<not> should_exclude then ConnTIMEOUT else ConnDISCONNECTED)
          in (\<lparr>excluded = should_exclude, counter = new_missed_actions,
                new_status = Some new_st\<rparr>,
              update_participant s (part_id participant)
                (\<lambda>q. q\<lparr>missed_actions := new_missed_actions, part_status := new_st,
                       connection_status := new_connection_status,
                       last_activity := now e\<rparr>)))"

text \<open>
  \<open>get_active_players\<close> joins the participants of the room with their users; a
  participant whose user row is missing drops out of the inner join.
\<close>

definition get_active_players :: "db \<Rightarrow> int \<Rightarrow> RoomParticipant list" where
  "get_active_players s rid =
     filter (\<lambda>p. part_room_id p = rid \<and> part_status p = ACTIVE
                  \<and> find_user s (part_user_id p) \<noteq> None)
            (participants s)"

definition is_connected :: "RoomParticipant \<Rightarrow> bool" where
  "is_connected p = (connection_status p = ConnCONNECTED)"

definition cleanup_inactive_players :: "db \<Rightarrow> int \<Rightarrow> db" where
  "cleanup_inactive_players s rid =
     (let excluded_users =
            map part_user_id
              (filter (\<lambda>p. part_room_id p = rid
                            \<and> (disconnect_count p \<ge> MAX_DISCONNECT_COUNT
                                \<or> missed_actions p \<ge> MAX_MISSED_ACTIONS))
                      (participants s))
      in if excluded_users \<noteq> []
         then s\<lparr>participants :=
                  map (\<lambda>q. if part_room_id q = rid \<and> part_user_id q \<in> set excluded_users
                            then q\<lparr>part_status := LEFT\<rparr> else q)
                      (participants s)\<rparr>
         else s)"

section \<open>Game service (app/services/game_service.py)\<close>

definition CARD_SELECTION_TIMEOUT :: int where "CARD_SELECTION_TIMEOUT = 300"
definition VOTING_TIMEOUT :: int where "VOTING_TIMEOUT = 180"
definition RESULTS_DISPLAY_TIME :: int where "RESULTS_DISPLAY_TIME = 5"

definition find_room :: "db \<Rightarrow> int \<Rightarrow> Room option" where
  "find_room s rid = find (\<lambda>r. room_id r = rid) (rooms s)"

definition find_round :: "db \<Rightarrow> int \<Rightarrow> GameRound option" where
  "find_round s rid = find (\<lambda>r. round_id r = rid) (rounds s)"

definition find_choice :: "db \<Rightarrow> int \<Rightarrow> PlayerChoice option" where
  "find_choice s cid = find (\<lambda>c. choice_id c = cid) (choices s)"

definition get_game_or_404 :: "db \<Rightarrow> int \<Rightarrow> error + Game" where
  "get_game_or_404 s gid =
     (case find (\<lambda>g. game_id g = gid) (games s) of
        None \<Rightarrow> Inl (NotFoundError ''game not found'')
      | Some g \<Rightarrow> Inr g)"

definition get_round_or_404 :: "db \<Rightarrow> int \<Rightarrow> error + GameRound" where
  "get_round_or_404 s rid =
     (case find_round s rid of
        None \<Rightarrow> Inl (NotFoundError ''round not found'')
      | Some r \<Rightarrow> Inr r)"

definition validate_player_in_game :: "db \<Rightarrow> int \<Rightarrow> int \<Rightarrow> error option" where
  "validate_player_in_game s rid uid =
     (case find (\<lambda>p. part_room_id p = rid \<and> part_user_id p = uid \<and> part_status p = ACTIVE)
                (participants s) of
        None \<Rightarrow> Some (PermissionError ''not a participant of this game'')
      | Some _ \<Rightarrow> None)"

definition update_game :: "db \<Rightarrow> int \<Rightarrow> (Game \<Rightarrow> Game) \<Rightarrow> db" where
  "update_game s gid f =
     s\<lparr>games := map (\<lambda>g. if game_id g = gid then f g else g) (games s)\<rparr>"

definition update_round :: "db \<Rightarrow> int \<Rightarrow> (GameRound \<Rightarrow> GameRound) \<Rightarrow> db" where
  "update_round s rid f =
     s\<lparr>rounds := map (\<lambda>r. if round_id r = rid then f r else r) (rounds s)\<rparr>"

definition update_room :: "db \<Rightarrow> int \<Rightarrow> (Room \<Rightarrow> Room) \<Rightarrow> db" where
  "update_room s rid f =
     s\<lparr>rooms := map (\<lambda>r. if room_id r = rid then f r else r) (rooms s)\<rparr>"

definition update_user :: "db \<Rightarrow> int \<Rightarrow> (User \<Rightarrow> User) \<Rightarrow> db" where
  "update_user s uid f =
     s\<lparr>users := map (\<lambda>u. if user_id u = uid then f u else u) (users s)\<rparr>"

subsection \<open>Rewards\<close>

text \<open>
  \<open>CardService.get_available_standard_cards_for_user\<close>: the listed standard cards the
  user does not own yet, in the order of the listing.
\<close>

definition get_available_standard_cards_for_user :: "env \<Rightarrow> db \<Rightarrow> int \<Rightarrow> int list" where
  "get_available_standard_cards_for_user e s uid =
     (let existing_numbers =
            map uc_card_number
              (filter (\<lambda>c. uc_user_id c = uid \<and> uc_card_type c = ''standard'') (user_cards s))
      in filter (\<lambda>num. num \<notin> set existing_numbers) (standard_cards e))"

definition award_winner_card_async :: "env \<Rightarrow> db \<Rightarrow> int \<Rightarrow> db" where
  "award_winner_card_async e s uid =
     (let available_cards = get_available_standard_cards_for_user e s uid
      in if available_cards \<noteq> []
         then let card_number = available_cards ! (rand e mod length available_cards)
              in s\<lparr>user_cards := user_cards s @
                      [\<lparr>uc_id = next_card_id s, uc_user_id = uid, uc_card_type = ''standard'',
                        uc_card_number = card_number, obtained_at = now e\<rparr>],
                    next_card_id := next_card_id s + 1\<rparr>
         else s)"

definition award_round_points :: "db \<Rightarrow> int \<Rightarrow> db" where
  "award_round_points s uid =
     (case find_user s uid of
        None \<Rightarrow> s
      | Some user \<Rightarrow> update_user s uid (\<lambda>u. u\<lparr>rating := rating user + 1\<rparr>))"

definition award_game_victory_points :: "db \<Rightarrow> int \<Rightarrow> db" where
  "award_game_victory_points s uid =
     (case find_user s uid of
        None \<Rightarrow> s
      | Some user \<Rightarrow> update_user s uid (\<lambda>u. u\<lparr>rating := rating user + 5\<rparr>))"

subsection \<open>Ending a game\<close>

text \<open>
  The statistics query of \<open>end_game\<close> joins users with their choices in the rounds of the
  game and with the votes those choices received, groups by user and counts the votes.
  The result is ordered by that count, descending.

  \<open>end_game\<close> creates the task \<open>_award_winner_card_async\<close> for the winner and returns
  without waiting for it: \<open>end_game_with_task\<close> is the function with, beside what it
  returns, the user for whom it has created that task; \<open>end_game\<close> is what the callers
  get. The body of the task is \<open>award_winner_card_async\<close> above, run on the state the
  session has when the event loop comes to it.
\<close>

definition game_choices_of :: "db \<Rightarrow> int \<Rightarrow> int \<Rightarrow> PlayerChoice list" where
  "game_choices_of s gid uid =
     filter (\<lambda>c. choice_user_id c = uid
                  \<and> (case find_round s (choice_round_id c) of
                        None \<Rightarrow> False | Some r \<Rightarrow> round_game_id r = gid))
            (choices s)"

definition votes_for_choice :: "db \<Rightarrow> int \<Rightarrow> int" where
  "votes_for_choice s cid = int (length (filter (\<lambda>v. vote_choice_id v = cid) (votes s)))"

definition round_wins_of :: "db \<Rightarrow> int \<Rightarrow> int \<Rightarrow> int" where
  "round_wins_of s gid uid =
     sum_list (map (\<lambda>c. votes_for_choice s (choice_id c)) (game_choices_of s gid uid))"

definition player_stats :: "env \<Rightarrow> db \<Rightarrow> int \<Rightarrow> (int \<times> int) list" where
  "player_stats e s gid =
     sort_key (\<lambda>row. - snd row)
       (sort_key (\<lambda>row. tie_order e (fst row))
          (map (\<lambda>u. (user_id u, round_wins_of s gid (user_id u)))
               (filter (\<lambda>u. game_choices_of s gid (user_id u) \<noteq> []) (users s))))"

definition end_game_with_task :: "env \<Rightarrow> db \<Rightarrow> int \<Rightarrow> outcome \<times> int option" where
  "end_game_with_task e s gid =
     (case get_game_or_404 s gid of
        Inl err \<Rightarrow> ((Some err, s), None)
      | Inr game \<Rightarrow>
          let leaderboard = player_stats e s gid;
              winner = (case leaderboard of [] \<Rightarrow> None | row # _ \<Rightarrow> Some (fst row));
              s1 = update_game s gid
                     (\<lambda>g. g\<lparr>game_status := FINISHED, winner_id := winner,
                            finished_at := Some (now e)\<rparr>);
              s2 = update_room s1 (game_room_id game) (\<lambda>r. r\<lparr>room_status := RoomFINISHED\<rparr>)
          in (case leaderboard of
                [] \<Rightarrow> ((None, s2), None)
              | row # _ \<Rightarrow>
                  if fst row \<noteq> 0 \<and> snd row > 0
                  then ((None, award_game_victory_points s2 (fst row)), Some (fst row))
                  else ((None, s2), None)))"

definition end_game :: "env \<Rightarrow> db \<Rightarrow> int \<Rightarrow> outcome" where
  "end_game e s gid = fst (end_game_with_task e s gid)"

subsection \<open>Starting a round\<close>

text \<open>
  \<open>start_round\<close> writes the round and the game. Queuing the generator job is taken to
  succeed, and the timer it starts at the end is the separate operation
  \<open>handle_selection_timeout\<close> below. \<open>round_duration\<close> is the duration it computes
  from the round counter of the game as read at the start of the call.
\<close>

definition round_duration :: "Game \<Rightarrow> int" where
  "round_duration game =
     (if current_round game \<le> 5
      then CARD_SELECTION_TIMEOUT - (current_round game - 1) * 5
      else 30)"

definition start_round :: "env \<Rightarrow> db \<Rightarrow> int \<Rightarrow> string option \<Rightarrow> outcome" where
  "start_round e s gid situation =
     (case get_game_or_404 s gid of
        Inl err \<Rightarrow> (Some err, s)
      | Inr game \<Rightarrow>
          if game_status game \<noteq> STARTING \<and> game_status game \<noteq> ROUND_RESULTS
          then (Some (ValidationError ''cannot start a round in this game state''), s)
          else
            let s1 = cleanup_inactive_players s (game_room_id game);
                active_players = get_active_players s1 (game_room_id game)
            in if length active_players < 3
               then end_game e s1 gid
               else
                 let duration = round_duration game;
                     current_time = now e;
                     next_round_number = current_round game + 1;
                     text_or_error =
                       (case situation of
                          Some txt \<Rightarrow> Inr (GivenText txt)
                        | None \<Rightarrow>
                            (case find_room s1 (game_room_id game) of
                               None \<Rightarrow> Inl (InternalError ''room is None'')
                             | Some room \<Rightarrow> Inr (GeneratingPlaceholder next_round_number)))
                 in (case text_or_error of
                       Inl err \<Rightarrow> (Some err, s1)
                     | Inr txt \<Rightarrow>
                         let game_round =
                               \<lparr>round_id = next_round_id s1, round_game_id = gid,
                                round_number = next_round_number, situation_text = txt,
                                duration_seconds = duration, started_at = Some current_time,
                                round_finished_at = None,
                                selection_deadline = Some (current_time + seconds duration),
                                voting_deadline =
                                  Some (current_time + seconds (duration + VOTING_TIMEOUT)),
                                auto_advanced = False\<rparr>;
                             s2 = s1\<lparr>rounds := rounds s1 @ [game_round],
                                     next_round_id := next_round_id s1 + 1\<rparr>
                         in (None, update_game s2 gid
                                     (\<lambda>g. g\<lparr>game_status := CARD_SELECTION,
                                            current_round := next_round_number\<rparr>))))"

subsection \<open>Card choices and votes\<close>

text \<open>
  The routers build \<open>GameService(db)\<close> without a Redis client, so the publications
  guarded by \<open>if self.redis_client\<close> do not run and are not part of the model.
\<close>

definition round_choices :: "db \<Rightarrow> int \<Rightarrow> PlayerChoice list" where
  "round_choices s rid = filter (\<lambda>c. choice_round_id c = rid) (choices s)"

definition round_votes :: "db \<Rightarrow> int \<Rightarrow> Vote list" where
  "round_votes s rid = filter (\<lambda>v. vote_round_id v = rid) (votes s)"

definition submit_card_choice ::
  "env \<Rightarrow> db \<Rightarrow> int \<Rightarrow> int \<Rightarrow> string \<Rightarrow> int \<Rightarrow> outcome" where
  "submit_card_choice e s rid uid ctype cnum =
     (case get_round_or_404 s rid of
        Inl err \<Rightarrow> (Some err, s)
      | Inr game_round \<Rightarrow>
     (case get_game_or_404 s (round_game_id game_round) of
        Inl err \<Rightarrow> (Some err, s)
      | Inr game \<Rightarrow>
          if game_status game \<noteq> CARD_SELECTION
          then (Some (ValidationError ''card selection is over''), s)
          else
     (case selection_deadline game_round of
        None \<Rightarrow> (Some (InternalError ''TypeError: datetime > None''), s)
      | Some deadline \<Rightarrow>
          if now e > deadline
          then (Some (ValidationError ''selection deadline passed''), s)
          else
     (case validate_player_in_game s (game_room_id game) uid of
        Some err \<Rightarrow> (Some err, s)
      | None \<Rightarrow>
          let s1 = update_player_activity e s uid (game_room_id game)
          in if find (\<lambda>c. choice_round_id c = rid \<and> choice_user_id c = uid) (choices s1) \<noteq> None
             then (Some (ValidationError ''card already chosen in this round''), s1)
             else if find (\<lambda>c. uc_user_id c = uid \<and> uc_card_type c = ctype
                                 \<and> uc_card_number c = cnum) (user_cards s1) = None
             then (Some (ValidationError ''card not owned''), s1)
             else (None, s1\<lparr>choices := choices s1 @
                               [\<lparr>choice_id = next_choice_id s1, choice_round_id = rid,
                                 choice_user_id = uid, card_type = ctype, card_number = cnum,
                                 submitted_at = now e\<rparr>],
                             next_choice_id := next_choice_id s1 + 1\<rparr>)))))"

definition start_voting :: "db \<Rightarrow> int \<Rightarrow> outcome" where
  "start_voting s rid =
     (case get_round_or_404 s rid of
        Inl err \<Rightarrow> (Some err, s)
      | Inr game_round \<Rightarrow>
     (case get_game_or_404 s (round_game_id game_round) of
        Inl err \<Rightarrow> (Some err, s)
      | Inr game \<Rightarrow>
          if game_status game \<noteq> CARD_SELECTION
          then (Some (ValidationError ''voting starts only after card selection''), s)
          else if length (round_choices s rid) < 3
          then (Some (ValidationError ''voting needs at least 3 choices''), s)
          else (None, update_game s (game_id game) (\<lambda>g. g\<lparr>game_status := VOTING\<rparr>))))"

text \<open>
  \<open>_check_all_players_chose_cards\<close> is defined in the service; no function of the
  repository calls it.
\<close>

definition check_all_players_chose_cards :: "db \<Rightarrow> int \<Rightarrow> int \<Rightarrow> outcome" where
  "check_all_players_chose_cards s gid rid =
     (case get_game_or_404 s gid of
        Inl err \<Rightarrow> (Some err, s)
      | Inr game \<Rightarrow>
          let active_players = get_active_players s (game_room_id game);
              connected_players = filter is_connected active_players;
              choices_count = length (round_choices s rid)
          in if choices_count \<ge> length connected_players \<and> length connected_players > 1
             then start_voting s rid
             else (None, s))"

text \<open>
  \<open>_check_all_players_voted\<close> changes no row: it returns whether it has queued the task
  that computes the results of the round.
\<close>

definition check_all_players_voted :: "db \<Rightarrow> int \<Rightarrow> int \<Rightarrow> error + bool" where
  "check_all_players_voted s gid rid =
     (case get_game_or_404 s gid of
        Inl err \<Rightarrow> Inl err
      | Inr game \<Rightarrow>
          let active_players = get_active_players s (game_room_id game);
              connected_players = filter is_connected active_players;
              players_should_vote = length connected_players;
              votes_count = length (round_votes s rid)
          in Inr (votes_count \<ge> players_should_vote \<and> players_should_vote > 1))"

definition submit_vote :: "env \<Rightarrow> db \<Rightarrow> int \<Rightarrow> int \<Rightarrow> int \<Rightarrow> outcome" where
  "submit_vote e s rid uid cid =
     (case get_round_or_404 s rid of
        Inl err \<Rightarrow> (Some err, s)
      | Inr game_round \<Rightarrow>
     (case get_game_or_404 s (round_game_id game_round) of
        Inl err \<Rightarrow> (Some err, s)
      | Inr game \<Rightarrow>
          if game_status game \<noteq> VOTING
          then (Some (ValidationError ''voting is over''), s)
          else
     (case voting_deadline game_round of
        None \<Rightarrow> (Some (InternalError ''TypeError: datetime > None''), s)
      | Some deadline \<Rightarrow>
          if now e > deadline
          then (Some (ValidationError ''voting deadline passed''), s)
          else
     (case validate_player_in_game s (game_room_id game) uid of
        Some err \<Rightarrow> (Some err, s)
      | None \<Rightarrow>
          let s1 = update_player_activity e s uid (game_room_id game)
          in if find (\<lambda>v. vote_round_id v = rid \<and> voter_id v = uid) (votes s1) \<noteq> None
             then (Some (ValidationError ''already voted in this round''), s1)
             else
     (case find_choice s1 cid of
        None \<Rightarrow> (Some (ValidationError ''choice not found''), s1)
      | Some choice \<Rightarrow>
          if choice_round_id choice \<noteq> rid
          then (Some (ValidationError ''choice not found''), s1)
          else if choice_user_id choice = uid
          then (Some (ValidationError ''cannot vote for own card''), s1)
          else
            let s2 = s1\<lparr>votes := votes s1 @
                           [\<lparr>vote_id = next_vote_id s1, vote_round_id = rid, voter_id = uid,
                             vote_choice_id = cid, vote_created_at = now e\<rparr>],
                         next_vote_id := next_vote_id s1 + 1\<rparr>
            in (case check_all_players_voted s2 (round_game_id game_round) rid of
                  Inl err \<Rightarrow> (Some err, s2)
                | Inr _ \<Rightarrow> (None, s2)))))))"

subsection \<open>Results of a round\<close>

text \<open>
  The vote-count query: one row per choice of the round whose user exists, with the number
  of votes that reference the choice, ordered by that number, descending.
\<close>

definition vote_counts_query :: "env \<Rightarrow> db \<Rightarrow> int \<Rightarrow> (PlayerChoice \<times> int) list" where
  "vote_counts_query e s rid =
     sort_key (\<lambda>row. - snd row)
       (sort_key (\<lambda>row. tie_order e (choice_id (fst row)))
          (map (\<lambda>c. (c, votes_for_choice s (choice_id c)))
               (filter (\<lambda>c. find_user s (choice_user_id c) \<noteq> None) (round_choices s rid))))"

text \<open>The loop over the rows that keeps the first row with a strictly larger count.\<close>

fun pick_winner ::
  "(PlayerChoice \<times> int) list \<Rightarrow> PlayerChoice option \<times> int \<Rightarrow> PlayerChoice option \<times> int" where
  "pick_winner [] acc = acc"
| "pick_winner ((c, vote_count) # rest) (winner_choice, max_votes) =
     pick_winner rest
       (if vote_count > max_votes then (Some c, vote_count) else (winner_choice, max_votes))"

text \<open>
  The writes of \<open>calculate_round_results\<close> up to the point where it waits for
  \<open>_schedule_next_round\<close>: the game goes to \<open>round_results\<close>, the round is closed, and
  the winner of the round gets a rating point when the best count is positive.
\<close>

definition close_round :: "env \<Rightarrow> db \<Rightarrow> Game \<Rightarrow> int \<Rightarrow> db" where
  "close_round e s game rid =
     (let (winner_choice, max_votes) = pick_winner (vote_counts_query e s rid) (None, -1);
          s1 = update_game s (game_id game) (\<lambda>g. g\<lparr>game_status := ROUND_RESULTS\<rparr>);
          s2 = update_round s1 rid (\<lambda>r. r\<lparr>round_finished_at := Some (now e)\<rparr>)
      in (case winner_choice of
            None \<Rightarrow> s2
          | Some w \<Rightarrow> if max_votes > 0 then award_round_points s2 (choice_user_id w) else s2))"

text \<open>
  \<open>_schedule_next_round\<close> sleeps for the display time, then ends the game after round 7
  or starts the next round; when that raises, it ends the game and swallows any exception.
\<close>

definition schedule_next_round :: "env \<Rightarrow> db \<Rightarrow> int \<Rightarrow> int \<Rightarrow> db" where
  "schedule_next_round e s gid current_round_number =
     (let e' = e\<lparr>now := now e + seconds RESULTS_DISPLAY_TIME\<rparr>;
          (err, s1) =
            (case get_game_or_404 s gid of
               Inl x \<Rightarrow> (Some x, s)
             | Inr game \<Rightarrow>
                 if current_round_number \<ge> 7 then end_game e' s gid
                 else start_round e' s gid None)
      in (case err of None \<Rightarrow> s1 | Some _ \<Rightarrow> snd (end_game e' s1 gid)))"

definition calculate_round_results :: "env \<Rightarrow> db \<Rightarrow> int \<Rightarrow> outcome" where
  "calculate_round_results e s rid =
     (case get_round_or_404 s rid of
        Inl err \<Rightarrow> (Some err, s)
      | Inr game_round \<Rightarrow>
     (case get_game_or_404 s (round_game_id game_round) of
        Inl err \<Rightarrow> (Some err, s)
      | Inr game \<Rightarrow>
          (None, schedule_next_round e (close_round e s game rid)
                   (game_id game) (round_number game_round))))"

subsection \<open>Deadline timers\<close>

text \<open>
  Both handlers read their round, sleep until its deadline and then act on the state they
  find when they wake up, with \<open>now\<close> the time at which they wake up. A round without
  the deadline makes the computation of the sleep raise a \<open>TypeError\<close>. The handlers
  catch every exception, so they return the state of the session and nothing else.
\<close>

definition record_missed :: "env \<Rightarrow> int \<Rightarrow> int list \<Rightarrow> db \<Rightarrow> RoomParticipant list \<Rightarrow> db" where
  "record_missed e room done s players =
     foldl (\<lambda>st player.
              if part_user_id player \<notin> set done
              then snd (handle_missed_action e st (part_user_id player) room)
              else st)
           s players"

definition handle_selection_timeout :: "env \<Rightarrow> db \<Rightarrow> int \<Rightarrow> db" where
  "handle_selection_timeout e s rid =
     (case get_round_or_404 s rid of
        Inl err \<Rightarrow> s
      | Inr game_round \<Rightarrow>
     (case selection_deadline game_round of
        None \<Rightarrow> s
      | Some deadline \<Rightarrow>
     (case get_game_or_404 s (round_game_id game_round) of
        Inl err \<Rightarrow> s
      | Inr game \<Rightarrow>
          if game_status game \<noteq> CARD_SELECTION then s
          else
            let active_players = get_active_players s (game_room_id game);
                players_with_choices = map choice_user_id (round_choices s rid);
                s1 = record_missed e (game_room_id game) players_with_choices s active_players
            in if length (round_choices s1 rid) \<ge> 3
               then snd (start_voting s1 rid)
               else snd (end_game e s1 (round_game_id game_round)))))"

definition handle_voting_timeout :: "env \<Rightarrow> db \<Rightarrow> int \<Rightarrow> db" where
  "handle_voting_timeout e s rid =
     (case get_round_or_404 s rid of
        Inl err \<Rightarrow> s
      | Inr game_round \<Rightarrow>
     (case voting_deadline game_round of
        None \<Rightarrow> s
      | Some deadline \<Rightarrow>
     (case get_game_or_404 s (round_game_id game_round) of
        Inl err \<Rightarrow> s
      | Inr game \<Rightarrow>
          if game_status game \<noteq> VOTING then s
          else
            let active_players = get_active_players s (game_room_id game);
                players_with_votes = map voter_id (round_votes s rid);
                s1 = record_missed e (game_room_id game) players_with_votes s active_players;
                s2 = update_round s1 rid (\<lambda>r. r\<lparr>auto_advanced := True\<rparr>)
            in snd (calculate_round_results e s2 rid))))"

section \<open>Room service (app/services/room_service.py)\<close>

definition is_profile_complete :: "User \<Rightarrow> bool" where
  "is_profile_complete u =
     (nickname u \<noteq> None \<and> nickname u \<noteq> Some [] \<and> birth_date u \<noteq> None \<and> gender u \<noteq> None)"

definition get_room_or_404 :: "db \<Rightarrow> int \<Rightarrow> error + Room" where
  "get_room_or_404 s rid =
     (case find_room s rid of
        None \<Rightarrow> Inl (NotFoundError ''room not found'')
      | Some r \<Rightarrow> Inr r)"

definition active_participant :: "db \<Rightarrow> int \<Rightarrow> int \<Rightarrow> RoomParticipant option" where
  "active_participant s rid uid =
     find (\<lambda>p. part_room_id p = rid \<and> part_user_id p = uid \<and> part_status p = ACTIVE)
          (participants s)"

definition get_active_players_count :: "db \<Rightarrow> int \<Rightarrow> int" where
  "get_active_players_count s rid =
     int (length (filter (\<lambda>p. part_room_id p = rid \<and> part_status p = ACTIVE) (participants s)))"

text \<open>
  The response of \<open>get_room_details\<close>, without the list of participants and the
  nicknames.
\<close>

record RoomDetail =
  rd_room_id :: int
  rd_status :: RoomStatus
  rd_current_players :: int
  rd_can_start_game :: bool

definition get_room_details :: "db \<Rightarrow> int \<Rightarrow> int option \<Rightarrow> error + RoomDetail" where
  "get_room_details s rid uid =
     (case find_room s rid of
        None \<Rightarrow> Inl (NotFoundError ''room not found'')
      | Some room \<Rightarrow>
          let denied =
                (if is_public room then None
                 else (case uid of
                         None \<Rightarrow> Some (PermissionError ''private room: unknown user'')
                       | Some u \<Rightarrow>
                           if u = 0 then Some (PermissionError ''private room: unknown user'')
                           else if active_participant s rid u = None
                           then Some (PermissionError ''private room: participants only'')
                           else None))
          in (case denied of
                Some err \<Rightarrow> Inl err
              | None \<Rightarrow>
                  let n = int (length (get_active_players s rid))
                  in Inr \<lparr>rd_room_id = room_id room, rd_status = room_status room,
                          rd_current_players = n,
                          rd_can_start_game = (n \<ge> 3 \<and> room_status room = RoomWAITING)\<rparr>))"

definition join_room_internal :: "env \<Rightarrow> db \<Rightarrow> int \<Rightarrow> int \<Rightarrow> (error + RoomDetail) \<times> db" where
  "join_room_internal e s rid uid =
     (case get_room_or_404 s rid of
        Inl err \<Rightarrow> (Inl err, s)
      | Inr room \<Rightarrow>
          if room_status room \<noteq> RoomWAITING
          then (Inl (ValidationError ''room does not accept players''), s)
          else if active_participant s rid uid \<noteq> None
          then (Inl (ValidationError ''already in this room''), s)
          else if get_active_players_count s rid \<ge> max_players room
          then (Inl (ValidationError ''room is full''), s)
          else
            let s1 = s\<lparr>participants := participants s @
                           [\<lparr>part_id = next_participant_id s, part_room_id = rid,
                             part_user_id = uid, joined_at = now e, part_status = ACTIVE,
                             connection_status = ConnCONNECTED, last_activity = now e,
                             last_ping = None, disconnect_count = 0, missed_actions = 0\<rparr>],
                        next_participant_id := next_participant_id s + 1\<rparr>
            in (get_room_details s1 rid (Some uid), s1))"

definition join_room :: "env \<Rightarrow> db \<Rightarrow> int \<Rightarrow> int \<Rightarrow> (error + RoomDetail) \<times> db" where
  "join_room e s rid uid =
     (case find_user s uid of
        None \<Rightarrow> (Inl (ValidationError ''profile incomplete''), s)
      | Some user \<Rightarrow>
          if \<not> is_profile_complete user
          then (Inl (ValidationError ''profile incomplete''), s)
          else
     (case get_room_or_404 s rid of
        Inl err \<Rightarrow> (Inl err, s)
      | Inr room \<Rightarrow>
          if \<not> is_public room
          then (Inl (PermissionError ''private room: use the room code''), s)
          else if room_status room \<noteq> RoomWAITING
          then (Inl (ValidationError ''room does not accept players''), s)
          else if active_participant s rid uid \<noteq> None
          then (Inl (ValidationError ''already in this room''), s)
          else if get_active_players_count s rid \<ge> max_players room
          then (Inl (ValidationError ''room is full''), s)
          else join_room_internal e s rid uid))"

text \<open>
  \<open>str.upper()\<close>: an ASCII lower-case letter becomes its upper-case letter, any other
  ASCII character stays. What a code point beyond ASCII becomes is in Python's Unicode
  tables, which are the parameter \<open>U\<close>.
\<close>

definition upper_codepoint :: "(nat \<Rightarrow> pystr) \<Rightarrow> nat \<Rightarrow> pystr" where
  "upper_codepoint U c =
     (if 97 \<le> c \<and> c \<le> 122 then [c - 32] else if c < 128 then [c] else U c)"

definition str_upper :: "(nat \<Rightarrow> pystr) \<Rightarrow> pystr \<Rightarrow> pystr" where
  "str_upper U str = concat (map (upper_codepoint U) str)"

definition join_room_by_code ::
  "(nat \<Rightarrow> pystr) \<Rightarrow> env \<Rightarrow> db \<Rightarrow> pystr \<Rightarrow> int \<Rightarrow> (error + RoomDetail) \<times> db" where
  "join_room_by_code U e s code uid =
     (case find_user s uid of
        None \<Rightarrow> (Inl (ValidationError ''profile incomplete''), s)
      | Some user \<Rightarrow>
          if \<not> is_profile_complete user
          then (Inl (ValidationError ''profile incomplete''), s)
          else
     (case find (\<lambda>r. room_code r = Some (str_upper U code) \<and> room_status r = RoomWAITING)
                (rooms s) of
        None \<Rightarrow> (Inl (NotFoundError ''no waiting room with this code''), s)
      | Some room \<Rightarrow> join_room_internal e s (room_id room) uid))"

text \<open>
  \<open>Room.generate_room_code\<close>: six draws from \<open>string.ascii_uppercase + string.digits\<close>;
  \<open>draw i\<close> is the index that the \<open>i\<close>-th draw selects.
\<close>

definition code_alphabet :: pystr where
  "code_alphabet = map of_char (''ABCDEFGHIJKLMNOPQRSTUVWXYZ'' @ ''0123456789'')"

definition generate_room_code :: "(nat \<Rightarrow> nat) \<Rightarrow> pystr" where
  "generate_room_code draw =
     map (\<lambda>i. code_alphabet ! (draw i mod length code_alphabet)) [0..<6]"

definition start_game :: "db \<Rightarrow> int \<Rightarrow> int \<Rightarrow> (error + int) \<times> db" where
  "start_game s rid uid =
     (case get_room_or_404 s rid of
        Inl err \<Rightarrow> (Inl err, s)
      | Inr room \<Rightarrow>
          if creator_id room \<noteq> uid
          then (Inl (PermissionError ''only the creator can start the game''), s)
          else if room_status room \<noteq> RoomWAITING
          then (Inl (ValidationError ''game already started or room closed''), s)
          else if get_active_players_count s rid < 3
          then (Inl (ValidationError ''at least 3 players needed''), s)
          else
            let s1 = update_room s rid (\<lambda>r. r\<lparr>room_status := RoomPLAYING\<rparr>)
            in (Inr (next_game_id s1),
                s1\<lparr>games := games s1 @
                      [\<lparr>game_id = next_game_id s1, game_room_id = rid, game_status = STARTING,
                        current_round = 1, winner_id = None, finished_at = None\<rparr>],
                    next_game_id := next_game_id s1 + 1\<rparr>))"

section \<open>Example states\<close>

text \<open>
  Four users with complete profiles; a public room 10 created by user 1, with room for
  four players and the code \<open>A1B2C3\<close>; users 1, 2 and 3 are its active participants.
\<close>

definition ex_user :: "int \<Rightarrow> string \<Rightarrow> User" where
  "ex_user i name =
     \<lparr>user_id = i, nickname = Some name, birth_date = Some (2000, 1, 1),
      gender = Some OTHER, rating = 0\<rparr>"

definition ex_participant :: "int \<Rightarrow> int \<Rightarrow> RoomParticipant" where
  "ex_participant i uid =
     \<lparr>part_id = i, part_room_id = 10, part_user_id = uid, joined_at = 0,
      part_status = ACTIVE, connection_status = ConnCONNECTED, last_activity = 0,
      last_ping = None, disconnect_count = 0, missed_actions = 0\<rparr>"

definition ex_code :: pystr where
  "ex_code = map of_char ''A1B2C3''"

definition ex_room :: Room where
  "ex_room =
     \<lparr>room_id = 10, creator_id = 1, max_players = 4, room_status = RoomWAITING,
      room_code = Some ex_code, is_public = True, age_group = Some ''young_adults''\<rparr>"

definition ex_lobby :: db where
  "ex_lobby =
     \<lparr>users = [ex_user 1 ''alice'', ex_user 2 ''bob'', ex_user 3 ''carol'', ex_user 4 ''dave''],
      user_cards =
        [\<lparr>uc_id = 1, uc_user_id = 1, uc_card_type = ''starter'', uc_card_number = 3,
          obtained_at = 0\<rparr>,
         \<lparr>uc_id = 2, uc_user_id = 2, uc_card_type = ''standard'', uc_card_number = 7,
          obtained_at = 0\<rparr>,
         \<lparr>uc_id = 3, uc_user_id = 3, uc_card_type = ''starter'', uc_card_number = 9,
          obtained_at = 0\<rparr>],
      rooms = [ex_room],
      participants = [ex_participant 1 1, ex_participant 2 2, ex_participant 3 3],
      games = [], rounds = [], choices = [], votes = [],
      next_card_id = 4, next_participant_id = 4, next_game_id = 1, next_round_id = 1,
      next_choice_id = 1, next_vote_id = 1\<rparr>"

text \<open>
  The clock reads 1000 s; the database returns rows with equal counts by increasing key;
  the object store lists the standard cards 7, 8 and 9.
\<close>

definition ex_env :: env where
  "ex_env = \<lparr>now = seconds 1000, tie_order = (\<lambda>k. k), rand = 0, standard_cards = [7, 8, 9]\<rparr>"

text \<open>The same, with a database that returns rows with equal counts by decreasing key.\<close>

definition ex_env_desc :: env where
  "ex_env_desc = ex_env\<lparr>tie_order := (\<lambda>k. - k)\<rparr>"

text \<open>The game as \<open>start_game\<close> and the first \<open>start_round\<close> leave it.\<close>

definition ex_started :: db where
  "ex_started = snd (start_game ex_lobby 10 1)"

definition ex_round :: GameRound where
  "ex_round =
     \<lparr>round_id = 1, round_game_id = 1, round_number = 2,
      situation_text = GivenText ''situation'', duration_seconds = 300,
      started_at = Some (seconds 1000), round_finished_at = None,
      selection_deadline = Some (seconds 1300), voting_deadline = Some (seconds 1480),
      auto_advanced = False\<rparr>"

definition ex_choice :: "int \<Rightarrow> int \<Rightarrow> string \<Rightarrow> int \<Rightarrow> int \<Rightarrow> PlayerChoice" where
  "ex_choice i uid ctype cnum t =
     \<lparr>choice_id = i, choice_round_id = 1, choice_user_id = uid, card_type = ctype,
      card_number = cnum, submitted_at = t\<rparr>"

definition ex_vote :: "int \<Rightarrow> int \<Rightarrow> int \<Rightarrow> Vote" where
  "ex_vote i uid cid =
     \<lparr>vote_id = i, vote_round_id = 1, voter_id = uid, vote_choice_id = cid,
      vote_created_at = seconds 1100\<rparr>"

text \<open>Card selection of the first round, after users 1 and 2 have chosen.\<close>

definition ex_selecting :: db where
  "ex_selecting =
     ex_lobby\<lparr>rooms := [ex_room\<lparr>room_status := RoomPLAYING\<rparr>],
              games := [\<lparr>game_id = 1, game_room_id = 10, game_status = CARD_SELECTION,
                         current_round = 2, winner_id = None, finished_at = None\<rparr>],
              rounds := [ex_round],
              choices := [ex_choice 1 1 ''starter'' 3 (seconds 1010),
                          ex_choice 2 2 ''standard'' 7 (seconds 1020)],
              next_game_id := 2, next_round_id := 2, next_choice_id := 3\<rparr>"

text \<open>Voting of the first round: all three have chosen, nobody has voted yet.\<close>

definition ex_voting :: db where
  "ex_voting =
     ex_selecting\<lparr>games := [\<lparr>game_id = 1, game_room_id = 10, game_status = VOTING,
                             current_round = 2, winner_id = None, finished_at = None\<rparr>],
                  choices := [ex_choice 1 1 ''starter'' 3 (seconds 1010),
                              ex_choice 2 2 ''standard'' 7 (seconds 1020),
                              ex_choice 3 3 ''starter'' 9 (seconds 1030)],
                  next_choice_id := 4\<rparr>"

text \<open>
  Voting with a tie: user 3 has voted for the choice of user 1 (submitted first), user 1
  for the choice of user 2 (submitted second).
\<close>

definition ex_tied :: db where
  "ex_tied = ex_voting\<lparr>votes := [ex_vote 1 3 1, ex_vote 2 1 2], next_vote_id := 3\<rparr>"

text \<open>The lobby after user 2 has dropped twice and missed one action.\<close>

definition ex_dropped_twice :: db where
  "ex_dropped_twice =
     update_participant ex_lobby 2 (\<lambda>q. q\<lparr>disconnect_count := 2, missed_actions := 1\<rparr>)"

text \<open>
  A lower-case or mixed-case variant of a room code: at every position the character of
  the code or its ASCII lower-case form.
\<close>

definition ascii_lower :: "nat \<Rightarrow> nat" where
  "ascii_lower c = (if 65 \<le> c \<and> c \<le> 90 then c + 32 else c)"

definition case_variant :: "pystr \<Rightarrow> pystr \<Rightarrow> bool" where
  "case_variant v code = list_all2 (\<lambda>x c. x = c \<or> x = ascii_lower c) v code"

text \<open>The draws that generate the code \<open>A1B2C3\<close> of the example room.\<close>

definition ex_draw :: "nat \<Rightarrow> nat" where
  "ex_draw i = [0, 27, 1, 28, 2, 29] ! i"

text \<open>
  The conditions under which the specification accepts a vote: the game is voting, the
  deadline of the round has not passed, the voter is an active participant, has not voted
  in the round, and the choice exists in the round and belongs to another user.
\<close>

definition vote_admissible ::
  "env \<Rightarrow> db \<Rightarrow> GameRound \<Rightarrow> Game \<Rightarrow> int \<Rightarrow> int \<Rightarrow> bool" where
  "vote_admissible e s r g uid cid =
     (game_status g = VOTING
      \<and> (case voting_deadline r of None \<Rightarrow> False | Some d \<Rightarrow> now e \<le> d)
      \<and> active_participant s (game_room_id g) uid \<noteq> None
      \<and> find (\<lambda>v. vote_round_id v = round_id r \<and> voter_id v = uid) (votes s) = None
      \<and> (case find_choice s cid of
            None \<Rightarrow> False
          | Some c \<Rightarrow> choice_round_id c = round_id r \<and> choice_user_id c \<noteq> uid))"

text \<open>
  The two invariants on stored votes: no vote references a choice of its own voter, and
  there is at most one vote per round and voter.
\<close>

definition no_self_votes :: "db \<Rightarrow> bool" where
  "no_self_votes s =
     list_all (\<lambda>v. case find_choice s (vote_choice_id v) of
                      None \<Rightarrow> True
                    | Some c \<Rightarrow> choice_user_id c \<noteq> voter_id v)
              (votes s)"

definition one_vote_per_voter :: "db \<Rightarrow> bool" where
  "one_vote_per_voter s = distinct (map (\<lambda>v. (vote_round_id v, voter_id v)) (votes s))"

definition is_validation_or_permission :: "error option \<Rightarrow> bool" where
  "is_validation_or_permission x =
     (case x of Some (ValidationError m) \<Rightarrow> True | Some (PermissionError m) \<Rightarrow> True
      | _ \<Rightarrow> False)"

text \<open>Card selection after user 3 has chosen too, at the time of \<open>ex_env\<close>.\<close>

definition ex_all_chosen :: db where
  "ex_all_chosen =
     ex_selecting\<lparr>participants :=
                    [ex_participant 1 1, ex_participant 2 2,
                     (ex_participant 3 3)\<lparr>last_activity := seconds 1000,
                                           last_ping := Some (seconds 1000)\<rparr>],
                  choices := [ex_choice 1 1 ''starter'' 3 (seconds 1010),
                              ex_choice 2 2 ''standard'' 7 (seconds 1020),
                              ex_choice 3 3 ''starter'' 9 (seconds 1000)],
                  next_choice_id := 4\<rparr>"

text \<open>The game row of \<open>ex_voting\<close> and \<open>ex_tied\<close>.\<close>

definition ex_game_voting :: Game where
  "ex_game_voting =
     \<lparr>game_id = 1, game_room_id = 10, game_status = VOTING,
      current_round = 2, winner_id = None, finished_at = None\<rparr>"

text \<open>
  \<open>ex_tied\<close> after the round has been closed by a database that returns tied rows by
  decreasing key: user 2 has the rating point.
\<close>

definition ex_closed :: db where
  "ex_closed =
     ex_tied\<lparr>users := [ex_user 1 ''alice'', (ex_user 2 ''bob'')\<lparr>rating := 1\<rparr>,
                        ex_user 3 ''carol'', ex_user 4 ''dave''],
             games := [ex_game_voting\<lparr>game_status := ROUND_RESULTS\<rparr>],
             rounds := [ex_round\<lparr>round_finished_at := Some (seconds 1000)\<rparr>]\<rparr>"

text \<open>
  Two expressions of \<open>end_game\<close> by name: the user of the first row of the leaderboard
  (the value written to \<open>winner_id\<close>), and the condition under which the rewards are
  given (\<open>winner_id and leaderboard and leaderboard[0]["round_wins"] > 0\<close>).
\<close>

definition top_player :: "env \<Rightarrow> db \<Rightarrow> int \<Rightarrow> int option" where
  "top_player e s gid = (case player_stats e s gid of [] \<Rightarrow> None | row # _ \<Rightarrow> Some (fst row))"

definition game_winner_rewarded :: "env \<Rightarrow> db \<Rightarrow> int \<Rightarrow> bool" where
  "game_winner_rewarded e s gid =
     (case player_stats e s gid of [] \<Rightarrow> False | row # _ \<Rightarrow> fst row \<noteq> 0 \<and> snd row > 0)"

text \<open>The environment of the examples with the clock at \<open>t\<close> seconds.\<close>

definition ex_env_at :: "int \<Rightarrow> env" where
  "ex_env_at t = ex_env\<lparr>now := seconds t\<rparr>"

text \<open>
  \<open>ex_tied\<close> after the results of its round have been computed at 1100 s (user 1 has
  the rating point), and the state five seconds later, when the next round has been
  started: the game is in card selection again, for the round with id 2.
\<close>

definition ex_results_shown :: db where
  "ex_results_shown =
     ex_tied\<lparr>users := [(ex_user 1 ''alice'')\<lparr>rating := 1\<rparr>, ex_user 2 ''bob'',
                        ex_user 3 ''carol'', ex_user 4 ''dave''],
             games := [ex_game_voting\<lparr>game_status := ROUND_RESULTS\<rparr>],
             rounds := [ex_round\<lparr>round_finished_at := Some (seconds 1100)\<rparr>]\<rparr>"

definition ex_second_round :: db where
  "ex_second_round =
     ex_results_shown
       \<lparr>games := [ex_game_voting\<lparr>game_status := CARD_SELECTION, current_round := 3\<rparr>],
        rounds := [ex_round\<lparr>round_finished_at := Some (seconds 1100)\<rparr>,
                   \<lparr>round_id = 2, round_game_id = 1, round_number = 3,
                    situation_text = GeneratingPlaceholder 3, duration_seconds = 295,
                    started_at = Some (seconds 1105), round_finished_at = None,
                    selection_deadline = Some (seconds 1400),
                    voting_deadline = Some (seconds 1580), auto_advanced = False\<rparr>],
        next_round_id := 3\<rparr>"

section \<open>Properties\<close>

subsection \<open>Lookups and updates\<close>

lemma find_map_update:
  assumes "find P xs = Some p" and "\<And>q. P (f q) = P q"
  shows "find P (map (\<lambda>q. if k q = k p then f q else q) xs) = Some (f p)"
  using assms by (induction xs) (auto split: if_splits)

lemma find_Some_holds: "find P xs = Some x \<Longrightarrow> P x"
  by (induction xs) (auto split: if_splits)

lemma find_None_iff_all: "find P xs = None \<longleftrightarrow> (\<forall>x\<in>set xs. \<not> P x)"
  by (induction xs) auto

lemma get_game_or_404_id: "get_game_or_404 s gid = Inr g \<Longrightarrow> game_id g = gid"
  by (auto simp: get_game_or_404_def split: option.splits dest: find_Some_holds)

lemma get_game_after_update:
  assumes "get_game_or_404 s gid = Inr g" and keeps_id: "\<And>q. game_id (f q) = game_id q"
  shows "get_game_or_404 (update_game s gid f) gid = Inr (f g)"
proof -
  from assms(1) have f: "find (\<lambda>g. game_id g = gid) (games s) = Some g"
    by (simp add: get_game_or_404_def split: option.splits)
  have "game_id g = gid" using assms(1) by (rule get_game_or_404_id)
  with find_map_update[OF f, where k = game_id and f = f] keeps_id
  show ?thesis by (simp add: get_game_or_404_def update_game_def)
qed

subsection \<open>Presence thresholds\<close>

lemma mark_player_disconnected_found:
  assumes "find_participant s uid rid = Some p"
  shows "\<exists>d s'. mark_player_disconnected e s uid rid = Inr (d, s')
           \<and> excluded d = (disconnect_count p + 1 \<ge> MAX_DISCONNECT_COUNT)
           \<and> counter d = disconnect_count p + 1
           \<and> find_participant s' uid rid =
               Some (p\<lparr>connection_status := ConnDISCONNECTED,
                       part_status := (if excluded d then LEFT else DISCONNECTED),
                       disconnect_count := disconnect_count p + 1,
                       last_activity := now e\<rparr>)"
proof -
  have f: "find (\<lambda>q. part_user_id q = uid \<and> part_room_id q = rid) (participants s) = Some p"
    using assms by (simp add: find_participant_def)
  show ?thesis
    using assms find_map_update[OF f, where k = part_id]
    by (simp add: mark_player_disconnected_def Let_def update_participant_def
        find_participant_def)
qed

lemma handle_missed_action_found:
  assumes "find_participant s uid rid = Some p"
  shows "\<exists>d s'. handle_missed_action e s uid rid = (d, s')
           \<and> excluded d = (missed_actions p + 1 \<ge> MAX_MISSED_ACTIONS)
           \<and> counter d = missed_actions p + 1
           \<and> find_participant s' uid rid =
               Some (p\<lparr>missed_actions := missed_actions p + 1,
                       part_status := (if excluded d then LEFT else part_status p),
                       connection_status :=
                         (if excluded d then ConnDISCONNECTED else ConnTIMEOUT),
                       last_activity := now e\<rparr>)"
proof -
  have f: "find (\<lambda>q. part_user_id q = uid \<and> part_room_id q = rid) (participants s) = Some p"
    using assms by (simp add: find_participant_def)
  show ?thesis
    using assms find_map_update[OF f, where k = part_id]
    by (simp add: handle_missed_action_def Let_def update_participant_def
        find_participant_def)
qed

text \<open>
  C8, as stated: membership becomes \<open>left\<close> exactly when the incremented counter exceeds
  the limit (3 disconnects, 2 missed actions). It fails: user 2 has dropped twice and
  missed once; the next disconnect makes the counter 3, which does not exceed 3, and the
  next missed action makes the counter 2, which does not exceed 2, yet both operations
  write \<open>left\<close> and report \<open>excluded\<close>.
\<close>

theorem presence_exceeds_counterexample:
  "map_sum id fst (mark_player_disconnected ex_env ex_dropped_twice 2 10)
     = Inr \<lparr>excluded = True, counter = 3, new_status = Some LEFT\<rparr>
   \<and> \<not> (3 > MAX_DISCONNECT_COUNT)
   \<and> fst (handle_missed_action ex_env ex_dropped_twice 2 10)
     = \<lparr>excluded = True, counter = 2, new_status = Some LEFT\<rparr>
   \<and> \<not> (2 > MAX_MISSED_ACTIONS)"
  by (simp add: mark_player_disconnected_def handle_missed_action_def find_participant_def
      ex_dropped_twice_def update_participant_def ex_lobby_def ex_participant_def
      MAX_DISCONNECT_COUNT_def MAX_MISSED_ACTIONS_def)

text \<open>
  C8, amended: for a participant of the room, \<open>mark_player_disconnected\<close> increments the
  disconnect counter and sets membership to \<open>left\<close> exactly when the incremented counter
  reaches \<open>MAX_DISCONNECT_COUNT = 3\<close> (it is at least 3), and to \<open>disconnected\<close> otherwise;
  \<open>handle_missed_action\<close> increments the missed-action counter and sets membership to
  \<open>left\<close> exactly when the incremented counter reaches \<open>MAX_MISSED_ACTIONS = 2\<close>, and
  leaves membership as it was otherwise. The \<open>excluded\<close> flag of the returned record
  reports whether the limit was reached.
\<close>

theorem presence_thresholds:
  assumes "find_participant s uid rid = Some p"
  shows "(\<exists>d s'. mark_player_disconnected e s uid rid = Inr (d, s')
            \<and> excluded d = (disconnect_count p + 1 \<ge> MAX_DISCONNECT_COUNT)
            \<and> counter d = disconnect_count p + 1
            \<and> find_participant s' uid rid =
                Some (p\<lparr>connection_status := ConnDISCONNECTED,
                        part_status := (if excluded d then LEFT else DISCONNECTED),
                        disconnect_count := disconnect_count p + 1,
                        last_activity := now e\<rparr>))
       \<and> (\<exists>d s'. handle_missed_action e s uid rid = (d, s')
            \<and> excluded d = (missed_actions p + 1 \<ge> MAX_MISSED_ACTIONS)
            \<and> counter d = missed_actions p + 1
            \<and> find_participant s' uid rid =
                Some (p\<lparr>missed_actions := missed_actions p + 1,
                        part_status := (if excluded d then LEFT else part_status p),
                        connection_status :=
                          (if excluded d then ConnDISCONNECTED else ConnTIMEOUT),
                        last_activity := now e\<rparr>))"
  using mark_player_disconnected_found[OF assms] handle_missed_action_found[OF assms]
  by blast

theorem presence_thresholds_witness:
  "find_participant ex_lobby 2 10 = Some (ex_participant 2 2)
   \<and> (\<exists>d s'. mark_player_disconnected ex_env ex_lobby 2 10 = Inr (d, s')
         \<and> \<not> excluded d \<and> counter d = 1
         \<and> map_option part_status (find_participant s' 2 10) = Some DISCONNECTED)
   \<and> (\<exists>d s'. handle_missed_action ex_env ex_lobby 2 10 = (d, s')
         \<and> \<not> excluded d \<and> counter d = 1
         \<and> map_option part_status (find_participant s' 2 10) = Some ACTIVE)"
proof -
  have h: "find_participant ex_lobby 2 10 = Some (ex_participant 2 2)"
    by (simp add: find_participant_def ex_lobby_def ex_participant_def)
  from presence_thresholds[OF h, of ex_env] h show ?thesis
    by (auto simp: ex_participant_def MAX_DISCONNECT_COUNT_def MAX_MISSED_ACTIONS_def)
qed

subsection \<open>Deadline timers\<close>

text \<open>
  The guard of both handlers reads the status of the game: a handler that finds the game in
  another status than the one of its phase returns the state unchanged. The guard does not
  read which round the game is in.
\<close>

lemma selection_timer_noop:
  assumes "get_round_or_404 s rid = Inr r" and "get_game_or_404 s (round_game_id r) = Inr g"
    and "game_status g \<noteq> CARD_SELECTION"
  shows "handle_selection_timeout e s rid = s"
  using assms by (simp add: handle_selection_timeout_def split: option.splits)

lemma voting_timer_noop:
  assumes "get_round_or_404 s rid = Inr r" and "get_game_or_404 s (round_game_id r) = Inr g"
    and "game_status g \<noteq> VOTING"
  shows "handle_voting_timeout e s rid = s"
  using assms by (simp add: handle_voting_timeout_def split: option.splits)

lemma start_voting_then_timer:
  assumes "start_voting s rid = (None, s')"
  shows "handle_selection_timeout e s' rid = s'"
proof -
  from assms obtain r where r: "get_round_or_404 s rid = Inr r"
    by (cases "get_round_or_404 s rid") (auto simp: start_voting_def)
  from assms r obtain g where g: "get_game_or_404 s (round_game_id r) = Inr g"
    by (cases "get_game_or_404 s (round_game_id r)") (auto simp: start_voting_def)
  have gid: "game_id g = round_game_id r" using g by (rule get_game_or_404_id)
  from assms r g have s': "s' = update_game s (round_game_id r) (\<lambda>g. g\<lparr>game_status := VOTING\<rparr>)"
    by (auto simp: start_voting_def gid split: if_splits)
  have r': "get_round_or_404 s' rid = Inr r"
    using r by (simp add: s' get_round_or_404_def find_round_def update_game_def)
  have g': "get_game_or_404 s' (round_game_id r) = Inr (g\<lparr>game_status := VOTING\<rparr>)"
    unfolding s' by (rule get_game_after_update[OF g]) simp
  show ?thesis by (rule selection_timer_noop[OF r' g']) simp
qed

subsection \<open>Joining a room\<close>

lemma get_room_details_public:
  assumes "find_room s rid = Some room" and "is_public room"
  shows "get_room_details s rid uid =
           Inr \<lparr>rd_room_id = room_id room, rd_status = room_status room,
                rd_current_players = int (length (get_active_players s rid)),
                rd_can_start_game =
                  (int (length (get_active_players s rid)) \<ge> 3
                   \<and> room_status room = RoomWAITING)\<rparr>"
  using assms by (simp add: get_room_details_def Let_def)

text \<open>
  C9, as stated: a repeated join by a user who is already an active participant succeeds.
  It fails: user 2 is an active participant of the public waiting room 10, and joining
  again raises a validation error (the state stays as it was).
\<close>

theorem rejoin_counterexample:
  "active_participant ex_lobby 10 2 = Some (ex_participant 2 2)
   \<and> join_room ex_env ex_lobby 10 2 = (Inl (ValidationError ''already in this room''), ex_lobby)"
  by (simp add: join_room_def find_user_def is_profile_complete_def get_room_or_404_def
      find_room_def active_participant_def ex_lobby_def ex_user_def ex_room_def
      ex_participant_def)

lemma join_room_with_room:
  assumes "find_user s uid = Some u" and "is_profile_complete u"
    and "find_room s rid = Some room"
  shows "(\<not> is_public room \<longrightarrow>
            join_room e s rid uid
              = (Inl (PermissionError ''private room: use the room code''), s))
       \<and> (is_public room \<and> room_status room \<noteq> RoomWAITING \<longrightarrow>
            join_room e s rid uid
              = (Inl (ValidationError ''room does not accept players''), s))
       \<and> (is_public room \<and> room_status room = RoomWAITING
            \<and> active_participant s rid uid \<noteq> None \<longrightarrow>
            join_room e s rid uid = (Inl (ValidationError ''already in this room''), s))
       \<and> (is_public room \<and> room_status room = RoomWAITING
            \<and> active_participant s rid uid = None
            \<and> get_active_players_count s rid \<ge> max_players room \<longrightarrow>
            join_room e s rid uid = (Inl (ValidationError ''room is full''), s))
       \<and> (is_public room \<and> room_status room = RoomWAITING
            \<and> active_participant s rid uid = None
            \<and> get_active_players_count s rid < max_players room \<longrightarrow>
            (\<exists>d s'. join_room e s rid uid = (Inr d, s') \<and> rd_room_id d = rid
               \<and> participants s' = participants s @
                    [\<lparr>part_id = next_participant_id s, part_room_id = rid,
                      part_user_id = uid, joined_at = now e, part_status = ACTIVE,
                      connection_status = ConnCONNECTED, last_activity = now e,
                      last_ping = None, disconnect_count = 0, missed_actions = 0\<rparr>]))"
proof -
  let ?s1 = "s\<lparr>participants := participants s @
                 [\<lparr>part_id = next_participant_id s, part_room_id = rid,
                   part_user_id = uid, joined_at = now e, part_status = ACTIVE,
                   connection_status = ConnCONNECTED, last_activity = now e,
                   last_ping = None, disconnect_count = 0, missed_actions = 0\<rparr>],
               next_participant_id := next_participant_id s + 1\<rparr>"
  have rid: "room_id room = rid"
    using assms(3) by (auto simp: find_room_def dest: find_Some_holds)
  have fr: "find_room ?s1 rid = Some room"
    using assms(3) by (simp add: find_room_def)
  show ?thesis
    using assms get_room_details_public[OF fr, of "Some uid"] rid
    by (auto simp: join_room_def join_room_internal_def get_room_or_404_def Let_def)
qed

lemma join_room_no_profile:
  assumes "\<forall>u. find_user s uid = Some u \<longrightarrow> \<not> is_profile_complete u"
  shows "join_room e s rid uid = (Inl (ValidationError ''profile incomplete''), s)"
  using assms by (cases "find_user s uid") (simp_all add: join_room_def)

lemma join_room_no_room:
  assumes "find_user s uid = Some u" and "is_profile_complete u" and "find_room s rid = None"
  shows "join_room e s rid uid = (Inl (NotFoundError ''room not found''), s)"
  using assms by (simp add: join_room_def get_room_or_404_def)

lemma join_room_refusal_keeps_state:
  assumes "fst (join_room e s rid uid) = Inl err"
  shows "snd (join_room e s rid uid) = s"
proof (cases "\<forall>u. find_user s uid = Some u \<longrightarrow> \<not> is_profile_complete u")
  case True
  then show ?thesis by (simp add: join_room_no_profile)
next
  case False
  then obtain u where u: "find_user s uid = Some u" "is_profile_complete u" by blast
  show ?thesis
  proof (cases "find_room s rid")
    case None
    then show ?thesis using u by (simp add: join_room_no_room)
  next
    case (Some room)
    from join_room_with_room[OF u Some, of e] assms show ?thesis
      by (cases "is_public room"; cases "room_status room = RoomWAITING";
          cases "active_participant s rid uid = None";
          cases "get_active_players_count s rid < max_players room") auto
  qed
qed

text \<open>
  C9, amended: \<open>join_room\<close> requires a complete profile (a user without one, or an
  unknown user, is refused with a validation error) and an existing room (not found
  otherwise). It refuses a private room with a permission error, and a room that is not
  waiting, a user who is already an active participant of the room, and a full room with a
  validation error. Every refusal leaves the state unchanged, so a repeated join is
  rejected and creates no second participant record. Otherwise it appends one active
  participant record for the user and returns the details of that room.
\<close>

theorem join_room_gate:
  "((\<forall>u. find_user s uid = Some u \<longrightarrow> \<not> is_profile_complete u) \<longrightarrow>
      join_room e s rid uid = (Inl (ValidationError ''profile incomplete''), s))
   \<and> (\<forall>u. find_user s uid = Some u \<and> is_profile_complete u \<longrightarrow>
         (find_room s rid = None \<longrightarrow>
            join_room e s rid uid = (Inl (NotFoundError ''room not found''), s))
         \<and> (\<forall>room. find_room s rid = Some room \<longrightarrow>
               (\<not> is_public room \<longrightarrow>
                  join_room e s rid uid
                    = (Inl (PermissionError ''private room: use the room code''), s))
               \<and> (is_public room \<and> room_status room \<noteq> RoomWAITING \<longrightarrow>
                    join_room e s rid uid
                      = (Inl (ValidationError ''room does not accept players''), s))
               \<and> (is_public room \<and> room_status room = RoomWAITING
                    \<and> active_participant s rid uid \<noteq> None \<longrightarrow>
                    join_room e s rid uid
                      = (Inl (ValidationError ''already in this room''), s))
               \<and> (is_public room \<and> room_status room = RoomWAITING
                    \<and> active_participant s rid uid = None
                    \<and> get_active_players_count s rid \<ge> max_players room \<longrightarrow>
                    join_room e s rid uid = (Inl (ValidationError ''room is full''), s))
               \<and> (is_public room \<and> room_status room = RoomWAITING
                    \<and> active_participant s rid uid = None
                    \<and> get_active_players_count s rid < max_players room \<longrightarrow>
                    (\<exists>d s'. join_room e s rid uid = (Inr d, s') \<and> rd_room_id d = rid
                       \<and> participants s' = participants s @
                            [\<lparr>part_id = next_participant_id s, part_room_id = rid,
                              part_user_id = uid, joined_at = now e, part_status = ACTIVE,
                              connection_status = ConnCONNECTED, last_activity = now e,
                              last_ping = None, disconnect_count = 0,
                              missed_actions = 0\<rparr>]))))
   \<and> (\<forall>err. fst (join_room e s rid uid) = Inl err \<longrightarrow> snd (join_room e s rid uid) = s)"
proof (intro conjI allI impI)
  assume "\<forall>u. find_user s uid = Some u \<longrightarrow> \<not> is_profile_complete u"
  then show "join_room e s rid uid = (Inl (ValidationError ''profile incomplete''), s)"
    by (rule join_room_no_profile)
next
  fix u assume "find_user s uid = Some u \<and> is_profile_complete u" and "find_room s rid = None"
  then show "join_room e s rid uid = (Inl (NotFoundError ''room not found''), s)"
    by (simp add: join_room_no_room)
next
  fix err assume "fst (join_room e s rid uid) = Inl err"
  then show "snd (join_room e s rid uid) = s" by (rule join_room_refusal_keeps_state)
qed (use join_room_with_room[of s uid _ rid _ e] in blast)+


theorem join_room_gate_witness:
  "join_room ex_env ex_lobby 10 5 = (Inl (ValidationError ''profile incomplete''), ex_lobby)
   \<and> join_room ex_env ex_lobby 11 4 = (Inl (NotFoundError ''room not found''), ex_lobby)
   \<and> join_room ex_env ex_lobby 10 2 = (Inl (ValidationError ''already in this room''), ex_lobby)
   \<and> (\<exists>d s'. join_room ex_env ex_lobby 10 4 = (Inr d, s') \<and> rd_room_id d = 10
         \<and> map part_user_id (participants s') = [1, 2, 3, 4])"
proof -
  have u5: "\<forall>u. find_user ex_lobby 5 = Some u \<longrightarrow> \<not> is_profile_complete u"
    by (simp add: find_user_def ex_lobby_def ex_user_def)
  have u2: "find_user ex_lobby 2 = Some (ex_user 2 ''bob'') \<and> is_profile_complete (ex_user 2 ''bob'')"
    and u4: "find_user ex_lobby 4 = Some (ex_user 4 ''dave'')
             \<and> is_profile_complete (ex_user 4 ''dave'')"
    by (simp_all add: find_user_def is_profile_complete_def ex_lobby_def ex_user_def)
  have r: "find_room ex_lobby 10 = Some ex_room" and r11: "find_room ex_lobby 11 = None"
    by (simp_all add: find_room_def ex_lobby_def ex_room_def)
  have a: "active_participant ex_lobby 10 2 \<noteq> None" "active_participant ex_lobby 10 4 = None"
    "get_active_players_count ex_lobby 10 < max_players ex_room"
    "is_public ex_room" "room_status ex_room = RoomWAITING"
    by (simp_all add: active_participant_def get_active_players_count_def ex_lobby_def
        ex_participant_def ex_room_def)
  have p: "map part_user_id (participants ex_lobby) = [1, 2, 3]"
    by (simp add: ex_lobby_def ex_participant_def)
  have c1: "join_room ex_env ex_lobby 10 5 = (Inl (ValidationError ''profile incomplete''), ex_lobby)"
    using join_room_gate[of ex_lobby 5 ex_env 10, THEN conjunct1] u5 by blast
  have c2: "join_room ex_env ex_lobby 11 4 = (Inl (NotFoundError ''room not found''), ex_lobby)"
    using join_room_gate[of ex_lobby 4 ex_env 11, THEN conjunct2, THEN conjunct1] u4 r11 by blast
  have c3: "join_room ex_env ex_lobby 10 2 = (Inl (ValidationError ''already in this room''), ex_lobby)"
    using join_room_gate[of ex_lobby 2 ex_env 10, THEN conjunct2, THEN conjunct1] u2 r a by blast
  have "\<exists>d s'. join_room ex_env ex_lobby 10 4 = (Inr d, s') \<and> rd_room_id d = 10
         \<and> participants s' = participants ex_lobby @
              [\<lparr>part_id = next_participant_id ex_lobby, part_room_id = 10,
                part_user_id = 4, joined_at = now ex_env, part_status = ACTIVE,
                connection_status = ConnCONNECTED, last_activity = now ex_env,
                last_ping = None, disconnect_count = 0, missed_actions = 0\<rparr>]"
    using join_room_gate[of ex_lobby 4 ex_env 10, THEN conjunct2, THEN conjunct1] u4 r a by blast
  then have c4: "\<exists>d s'. join_room ex_env ex_lobby 10 4 = (Inr d, s') \<and> rd_room_id d = 10
         \<and> map part_user_id (participants s') = [1, 2, 3, 4]"
    using p by auto
  from c1 c2 c3 c4 show ?thesis by blast
qed

subsection \<open>Joining by code\<close>

lemma code_alphabet_eq: "code_alphabet = [65..<91] @ [48..<58]"
  by (simp add: code_alphabet_def upt_rec)

lemma code_alphabet_range:
  "c \<in> set code_alphabet \<Longrightarrow> (65 \<le> c \<and> c \<le> 90) \<or> (48 \<le> c \<and> c \<le> 57)"
  unfolding code_alphabet_eq by auto

lemma upper_codepoint_variant:
  assumes "c \<in> set code_alphabet" and "x = c \<or> x = ascii_lower c"
  shows "upper_codepoint U x = [c]"
  using code_alphabet_range[OF assms(1)] assms(2)
  by (auto simp: upper_codepoint_def ascii_lower_def)

lemma str_upper_variant:
  assumes "case_variant v code" and "set code \<subseteq> set code_alphabet"
  shows "str_upper U v = code"
  using assms unfolding case_variant_def
  by (induction v code rule: list_all2_induct) (auto simp: str_upper_def upper_codepoint_variant)

text \<open>Every generated code has six characters, all upper-case letters or digits.\<close>

lemma generate_room_code_alphabet:
  "set (generate_room_code draw) \<subseteq> set code_alphabet \<and> length (generate_room_code draw) = 6"
proof -
  have "length code_alphabet = 36" by (simp add: code_alphabet_def)
  then have "code_alphabet ! (n mod length code_alphabet) \<in> set code_alphabet" for n
    by (intro nth_mem) simp
  then show ?thesis by (auto simp: generate_room_code_def)
qed

lemma join_room_internal_admits:
  assumes room: "find_room s rid = Some room"
    and st: "room_status room = RoomWAITING"
    and na: "active_participant s rid uid = None"
    and cap: "get_active_players_count s rid < max_players room"
    and vis: "is_public room \<or> uid \<noteq> 0"
  shows "\<exists>d s'. join_room_internal e s rid uid = (Inr d, s') \<and> rd_room_id d = rid
           \<and> participants s' = participants s @
                [\<lparr>part_id = next_participant_id s, part_room_id = rid,
                  part_user_id = uid, joined_at = now e, part_status = ACTIVE,
                  connection_status = ConnCONNECTED, last_activity = now e,
                  last_ping = None, disconnect_count = 0, missed_actions = 0\<rparr>]"
proof -
  let ?new = "\<lparr>part_id = next_participant_id s, part_room_id = rid,
                part_user_id = uid, joined_at = now e, part_status = ACTIVE,
                connection_status = ConnCONNECTED, last_activity = now e,
                last_ping = None, disconnect_count = 0, missed_actions = 0\<rparr>"
  let ?s1 = "s\<lparr>participants := participants s @ [?new],
               next_participant_id := next_participant_id s + 1\<rparr>"
  have rid: "room_id room = rid"
    using room by (auto simp: find_room_def dest: find_Some_holds)
  have fr: "find_room ?s1 rid = Some room"
    using room by (simp add: find_room_def)
  have act: "active_participant ?s1 rid uid \<noteq> None"
    by (simp add: active_participant_def find_None_iff_all)
  have "\<exists>d. get_room_details ?s1 rid (Some uid) = Inr d \<and> rd_room_id d = rid"
    using fr act vis rid by (auto simp: get_room_details_def Let_def)
  then show ?thesis
    using room st na cap
    by (auto simp: join_room_internal_def get_room_or_404_def Let_def)
qed

text \<open>
  C10: for a code made of upper-case letters and digits (as every generated code is) and
  any lower-case or mixed-case variant of it, \<open>join_room_by_code\<close> upper-cases the
  variant to the code itself and looks up the waiting room that stores the code, so it
  returns the same result and the same state as with the exact code. For a user with a
  complete profile: when no waiting room stores the code the join is refused as not found;
  when one does, the join is the join to that room, and it admits the user to it (one
  active participant record for that room is appended) when the user is not yet an active
  participant and the room is not full.
\<close>

theorem join_by_code_case_insensitive:
  assumes "set code \<subseteq> set code_alphabet" and "case_variant v code"
  shows "str_upper U v = code
       \<and> join_room_by_code U e s v uid = join_room_by_code U e s code uid
       \<and> (\<forall>u. find_user s uid = Some u \<and> is_profile_complete u \<longrightarrow>
             (find (\<lambda>r. room_code r = Some code \<and> room_status r = RoomWAITING) (rooms s) = None
                \<longrightarrow> join_room_by_code U e s v uid
                      = (Inl (NotFoundError ''no waiting room with this code''), s))
             \<and> (\<forall>room. find (\<lambda>r. room_code r = Some code \<and> room_status r = RoomWAITING)
                              (rooms s) = Some room \<longrightarrow>
                   room_code room = Some code
                   \<and> join_room_by_code U e s v uid = join_room_internal e s (room_id room) uid
                   \<and> (find_room s (room_id room) = Some room
                        \<and> active_participant s (room_id room) uid = None
                        \<and> get_active_players_count s (room_id room) < max_players room
                        \<and> (is_public room \<or> uid \<noteq> 0) \<longrightarrow>
                        (\<exists>d s'. join_room_by_code U e s v uid = (Inr d, s')
                           \<and> rd_room_id d = room_id room
                           \<and> participants s' = participants s @
                                [\<lparr>part_id = next_participant_id s,
                                  part_room_id = room_id room, part_user_id = uid,
                                  joined_at = now e, part_status = ACTIVE,
                                  connection_status = ConnCONNECTED, last_activity = now e,
                                  last_ping = None, disconnect_count = 0,
                                  missed_actions = 0\<rparr>]))))"
proof -
  have "case_variant code code" by (simp add: case_variant_def list_all2_same)
  then have a: "str_upper U code = code" using assms(1) by (rule str_upper_variant)
  have b: "str_upper U v = code" using assms(2,1) by (rule str_upper_variant)
  have eq: "join_room_by_code U e s v uid = join_room_by_code U e s code uid"
    unfolding join_room_by_code_def a b by simp
  have nf: "join_room_by_code U e s v uid
              = (Inl (NotFoundError ''no waiting room with this code''), s)"
    if "find_user s uid = Some u \<and> is_profile_complete u"
      and "find (\<lambda>r. room_code r = Some code \<and> room_status r = RoomWAITING) (rooms s) = None"
    for u
    unfolding join_room_by_code_def b using that by simp
  have found: "room_code room = Some code
       \<and> join_room_by_code U e s v uid = join_room_internal e s (room_id room) uid
       \<and> (find_room s (room_id room) = Some room
            \<and> active_participant s (room_id room) uid = None
            \<and> get_active_players_count s (room_id room) < max_players room
            \<and> (is_public room \<or> uid \<noteq> 0) \<longrightarrow>
            (\<exists>d s'. join_room_by_code U e s v uid = (Inr d, s')
               \<and> rd_room_id d = room_id room
               \<and> participants s' = participants s @
                    [\<lparr>part_id = next_participant_id s,
                      part_room_id = room_id room, part_user_id = uid,
                      joined_at = now e, part_status = ACTIVE,
                      connection_status = ConnCONNECTED, last_activity = now e,
                      last_ping = None, disconnect_count = 0,
                      missed_actions = 0\<rparr>]))"
    if u: "find_user s uid = Some u \<and> is_profile_complete u"
      and f: "find (\<lambda>r. room_code r = Some code \<and> room_status r = RoomWAITING) (rooms s)
                = Some room"
    for u room
  proof -
    have rc: "room_code room = Some code \<and> room_status room = RoomWAITING"
      using f by (auto dest: find_Some_holds)
    have j: "join_room_by_code U e s v uid = join_room_internal e s (room_id room) uid"
      unfolding join_room_by_code_def b using u f by simp
    show ?thesis
      using rc j join_room_internal_admits[of s "room_id room" room uid e] by auto
  qed
  show ?thesis using b eq nf found by blast
qed


theorem join_by_code_case_insensitive_witness:
  "generate_room_code ex_draw = ex_code
   \<and> map room_code (rooms ex_lobby) = [Some ex_code]
   \<and> case_variant (map of_char ''a1b2C3'') ex_code
   \<and> str_upper (\<lambda>c. [c]) (map of_char ''a1b2C3'') = ex_code
   \<and> join_room_by_code (\<lambda>c. [c]) ex_env ex_lobby (map of_char ''a1b2C3'') 4
       = join_room_by_code (\<lambda>c. [c]) ex_env ex_lobby ex_code 4
   \<and> (\<exists>d s'. join_room_by_code (\<lambda>c. [c]) ex_env ex_lobby (map of_char ''a1b2C3'') 4 = (Inr d, s')
         \<and> rd_room_id d = 10 \<and> map part_user_id (participants s') = [1, 2, 3, 4])"
proof -
  have g: "generate_room_code ex_draw = ex_code"
    by (simp add: generate_room_code_def ex_draw_def ex_code_def code_alphabet_eq upt_rec)
  have sub: "set ex_code \<subseteq> set code_alphabet"
    using generate_room_code_alphabet[of ex_draw] by (simp add: g)
  have v: "case_variant (map of_char ''a1b2C3'') ex_code"
    by (simp add: case_variant_def ex_code_def ascii_lower_def)
  have rc: "map room_code (rooms ex_lobby) = [Some ex_code]"
    by (simp add: ex_lobby_def ex_room_def)
  have u: "find_user ex_lobby 4 = Some (ex_user 4 ''dave'')
           \<and> is_profile_complete (ex_user 4 ''dave'')"
    by (simp add: find_user_def is_profile_complete_def ex_lobby_def ex_user_def)
  have f: "find (\<lambda>r. room_code r = Some ex_code \<and> room_status r = RoomWAITING) (rooms ex_lobby)
             = Some ex_room"
    by (simp add: ex_lobby_def ex_room_def)
  have c: "find_room ex_lobby (room_id ex_room) = Some ex_room
           \<and> active_participant ex_lobby (room_id ex_room) 4 = None
           \<and> get_active_players_count ex_lobby (room_id ex_room) < max_players ex_room
           \<and> (is_public ex_room \<or> (4::int) \<noteq> 0)"
    by (simp add: find_room_def active_participant_def get_active_players_count_def
        ex_lobby_def ex_participant_def ex_room_def)
  have rid: "room_id ex_room = 10" by (simp add: ex_room_def)
  have p: "map part_user_id (participants ex_lobby) = [1, 2, 3]"
    by (simp add: ex_lobby_def ex_participant_def)
  note main = join_by_code_case_insensitive[OF sub v, of "\<lambda>c. [c]" ex_env ex_lobby 4]
  from main have up: "str_upper (\<lambda>c. [c]) (map of_char ''a1b2C3'') = ex_code"
    and eq: "join_room_by_code (\<lambda>c. [c]) ex_env ex_lobby (map of_char ''a1b2C3'') 4
               = join_room_by_code (\<lambda>c. [c]) ex_env ex_lobby ex_code 4"
    by blast+
  from main u f c
  have "\<exists>d s'. join_room_by_code (\<lambda>c. [c]) ex_env ex_lobby (map of_char ''a1b2C3'') 4 = (Inr d, s')
          \<and> rd_room_id d = room_id ex_room
          \<and> participants s' = participants ex_lobby @
               [\<lparr>part_id = next_participant_id ex_lobby,
                 part_room_id = room_id ex_room, part_user_id = 4,
                 joined_at = now ex_env, part_status = ACTIVE,
                 connection_status = ConnCONNECTED, last_activity = now ex_env,
                 last_ping = None, disconnect_count = 0, missed_actions = 0\<rparr>]"
    by blast
  then have adm: "\<exists>d s'. join_room_by_code (\<lambda>c. [c]) ex_env ex_lobby (map of_char ''a1b2C3'') 4
                     = (Inr d, s')
         \<and> rd_room_id d = 10 \<and> map part_user_id (participants s') = [1, 2, 3, 4]"
    using p rid by auto
  from g rc v up eq adm show ?thesis by blast
qed

subsection \<open>Votes\<close>

lemma get_round_or_404_id: "get_round_or_404 s rid = Inr r \<Longrightarrow> round_id r = rid"
  by (auto simp: get_round_or_404_def find_round_def split: option.splits dest: find_Some_holds)

lemma update_player_activity_tables [simp]:
  "votes (update_player_activity e s uid rid) = votes s"
  "choices (update_player_activity e s uid rid) = choices s"
  "games (update_player_activity e s uid rid) = games s"
  "next_vote_id (update_player_activity e s uid rid) = next_vote_id s"
  by (simp_all add: update_player_activity_def)

lemma find_choice_activity [simp]:
  "find_choice (update_player_activity e s uid rid) cid = find_choice s cid"
  by (simp add: find_choice_def)

lemma validate_player_iff:
  "validate_player_in_game s room uid = None \<longleftrightarrow> active_participant s room uid \<noteq> None"
  by (simp add: validate_player_in_game_def active_participant_def split: option.splits)

lemma validate_player_error:
  "validate_player_in_game s room uid = Some err \<Longrightarrow> is_validation_or_permission (Some err)"
  by (auto simp: validate_player_in_game_def is_validation_or_permission_def split: option.splits)

lemma check_all_players_voted_ok:
  assumes "get_game_or_404 s gid = Inr g" and "games s' = games s"
  shows "\<exists>b. check_all_players_voted s' gid rid = Inr b"
  using assms by (simp add: check_all_players_voted_def get_game_or_404_def Let_def)

lemma submit_vote_accepted:
  assumes r: "get_round_or_404 s rid = Inr r"
    and g: "get_game_or_404 s (round_game_id r) = Inr g"
    and ok: "vote_admissible e s r g uid cid"
  shows "fst (submit_vote e s rid uid cid) = None
       \<and> votes (snd (submit_vote e s rid uid cid)) = votes s @
           [\<lparr>vote_id = next_vote_id s, vote_round_id = rid, voter_id = uid,
             vote_choice_id = cid, vote_created_at = now e\<rparr>]
       \<and> choices (snd (submit_vote e s rid uid cid)) = choices s"
proof -
  have rid: "round_id r = rid" using r by (rule get_round_or_404_id)
  let ?s1 = "update_player_activity e s uid (game_room_id g)"
  let ?s2 = "?s1\<lparr>votes := votes ?s1 @
                     [\<lparr>vote_id = next_vote_id ?s1, vote_round_id = rid, voter_id = uid,
                       vote_choice_id = cid, vote_created_at = now e\<rparr>],
                   next_vote_id := next_vote_id ?s1 + 1\<rparr>"
  obtain b where b: "check_all_players_voted ?s2 (round_game_id r) rid = Inr b"
    using check_all_players_voted_ok[OF g, of ?s2] by auto
  from ok obtain d c where d: "voting_deadline r = Some d" "now e \<le> d"
    and c: "find_choice s cid = Some c" "choice_round_id c = rid" "choice_user_id c \<noteq> uid"
    and st: "game_status g = VOTING"
    and v: "validate_player_in_game s (game_room_id g) uid = None"
    and nv: "find (\<lambda>v. vote_round_id v = rid \<and> voter_id v = uid) (votes s) = None"
    by (auto simp: vote_admissible_def rid validate_player_iff split: option.splits)
  have "submit_vote e s rid uid cid = (None, ?s2)"
    using r g d c st v nv b by (simp add: submit_vote_def Let_def)
  then show ?thesis by simp
qed

lemma submit_vote_refused:
  assumes r: "get_round_or_404 s rid = Inr r"
    and g: "get_game_or_404 s (round_game_id r) = Inr g"
    and d: "voting_deadline r = Some d"
    and no: "\<not> vote_admissible e s r g uid cid"
  shows "is_validation_or_permission (fst (submit_vote e s rid uid cid))
       \<and> votes (snd (submit_vote e s rid uid cid)) = votes s
       \<and> choices (snd (submit_vote e s rid uid cid)) = choices s"
proof -
  have rid: "round_id r = rid" using r by (rule get_round_or_404_id)
  show ?thesis
    using r g d no validate_player_error[of s "game_room_id g" uid]
    by (auto simp: submit_vote_def Let_def vote_admissible_def rid validate_player_iff
        is_validation_or_permission_def split: option.splits)
qed


lemma invariants_cong:
  assumes "votes s' = votes s" and "choices s' = choices s"
  shows "no_self_votes s' = no_self_votes s" and "one_vote_per_voter s' = one_vote_per_voter s"
  using assms by (simp_all add: no_self_votes_def one_vote_per_voter_def find_choice_def)

lemma invariants_append:
  assumes "votes s' = votes s @ [v]" and "choices s' = choices s"
    and "find_choice s (vote_choice_id v) = Some c" and "choice_user_id c \<noteq> voter_id v"
    and "find (\<lambda>w. vote_round_id w = vote_round_id v \<and> voter_id w = voter_id v) (votes s) = None"
    and "no_self_votes s" and "one_vote_per_voter s"
  shows "no_self_votes s' \<and> one_vote_per_voter s'"
proof -
  have "(vote_round_id v, voter_id v) \<notin> set (map (\<lambda>v. (vote_round_id v, voter_id v)) (votes s))"
    using assms(5) by (auto simp: find_None_iff_all)
  then have "one_vote_per_voter s'"
    using assms(1,7) by (simp add: one_vote_per_voter_def)
  moreover have "no_self_votes s'"
    using assms(1,2,3,4,6) by (simp add: no_self_votes_def find_choice_def)
  ultimately show ?thesis by simp
qed

text \<open>
  C6: for an existing round with a voting deadline, \<open>submit_vote\<close> succeeds if and only
  if the game is voting, the deadline has not passed, the voter is an active participant
  without a vote in the round, and the choice exists in the round and belongs to another
  user. On success exactly one vote is appended; otherwise a validation or permission error
  is raised and the votes are unchanged. Hence both invariants on stored votes are
  preserved: no vote for one's own choice, at most one vote per round and voter.
\<close>

theorem submit_vote_guard:
  assumes r: "get_round_or_404 s rid = Inr r"
    and g: "get_game_or_404 s (round_game_id r) = Inr g"
    and d: "voting_deadline r = Some d"
  shows "(fst (submit_vote e s rid uid cid) = None \<longleftrightarrow> vote_admissible e s r g uid cid)
       \<and> (vote_admissible e s r g uid cid \<longrightarrow>
            votes (snd (submit_vote e s rid uid cid)) = votes s @
              [\<lparr>vote_id = next_vote_id s, vote_round_id = rid, voter_id = uid,
                vote_choice_id = cid, vote_created_at = now e\<rparr>])
       \<and> (\<not> vote_admissible e s r g uid cid \<longrightarrow>
            is_validation_or_permission (fst (submit_vote e s rid uid cid))
            \<and> votes (snd (submit_vote e s rid uid cid)) = votes s)
       \<and> (no_self_votes s \<and> one_vote_per_voter s \<longrightarrow>
            no_self_votes (snd (submit_vote e s rid uid cid))
            \<and> one_vote_per_voter (snd (submit_vote e s rid uid cid)))"
proof (cases "vote_admissible e s r g uid cid")
  case True
  note acc = submit_vote_accepted[OF r g True]
  have rid: "round_id r = rid" using r by (rule get_round_or_404_id)
  from True obtain c where c: "find_choice s cid = Some c" "choice_user_id c \<noteq> uid"
    and nv: "find (\<lambda>v. vote_round_id v = rid \<and> voter_id v = uid) (votes s) = None"
    by (auto simp: vote_admissible_def rid split: option.splits)
  have "no_self_votes s \<and> one_vote_per_voter s \<longrightarrow>
          no_self_votes (snd (submit_vote e s rid uid cid))
          \<and> one_vote_per_voter (snd (submit_vote e s rid uid cid))"
    using invariants_append[of "snd (submit_vote e s rid uid cid)" s
        "\<lparr>vote_id = next_vote_id s, vote_round_id = rid, voter_id = uid,
          vote_choice_id = cid, vote_created_at = now e\<rparr>" c] acc c nv
    by simp
  with True acc show ?thesis by simp
next
  case False
  note ref = submit_vote_refused[OF r g d False]
  have "fst (submit_vote e s rid uid cid) \<noteq> None"
    using ref by (auto simp: is_validation_or_permission_def split: option.splits)
  moreover have "no_self_votes (snd (submit_vote e s rid uid cid)) = no_self_votes s"
    "one_vote_per_voter (snd (submit_vote e s rid uid cid)) = one_vote_per_voter s"
    using ref invariants_cong[of "snd (submit_vote e s rid uid cid)" s] by blast+
  ultimately show ?thesis using False ref by simp
qed

theorem submit_vote_guard_witness:
  "vote_admissible ex_env ex_voting ex_round (hd (games ex_voting)) 2 1
   \<and> fst (submit_vote ex_env ex_voting 1 2 1) = None
   \<and> votes (snd (submit_vote ex_env ex_voting 1 2 1))
       = [\<lparr>vote_id = 1, vote_round_id = 1, voter_id = 2, vote_choice_id = 1,
           vote_created_at = seconds 1000\<rparr>]
   \<and> \<not> vote_admissible ex_env ex_voting ex_round (hd (games ex_voting)) 2 2
   \<and> fst (submit_vote ex_env ex_voting 1 2 2) = Some (ValidationError ''cannot vote for own card'')
   \<and> votes (snd (submit_vote ex_env ex_voting 1 2 2)) = []
   \<and> no_self_votes (snd (submit_vote ex_env ex_voting 1 2 1))
   \<and> one_vote_per_voter (snd (submit_vote ex_env ex_voting 1 2 1))"
proof -
  let ?g = "\<lparr>game_id = 1, game_room_id = 10, game_status = VOTING,
             current_round = 2, winner_id = None, finished_at = None\<rparr>"
  have hd: "hd (games ex_voting) = ?g"
    by (simp add: ex_voting_def ex_selecting_def ex_lobby_def)
  have r: "get_round_or_404 ex_voting 1 = Inr ex_round"
    by (simp add: get_round_or_404_def find_round_def ex_voting_def ex_selecting_def
        ex_lobby_def ex_round_def)
  have g: "get_game_or_404 ex_voting (round_game_id ex_round) = Inr ?g"
    by (simp add: get_game_or_404_def ex_voting_def ex_selecting_def ex_lobby_def ex_round_def)
  have d: "voting_deadline ex_round = Some (seconds 1480)" by (simp add: ex_round_def)
  have v: "votes ex_voting = []" "next_vote_id ex_voting = 1"
    by (simp_all add: ex_voting_def ex_selecting_def ex_lobby_def)
  have a1: "vote_admissible ex_env ex_voting ex_round ?g 2 1"
    by (simp add: vote_admissible_def active_participant_def find_choice_def ex_voting_def
        ex_selecting_def ex_lobby_def ex_round_def ex_env_def ex_participant_def ex_choice_def
        seconds_def)
  have a2: "\<not> vote_admissible ex_env ex_voting ex_round ?g 2 2"
    by (simp add: vote_admissible_def active_participant_def find_choice_def ex_voting_def
        ex_selecting_def ex_lobby_def ex_round_def ex_env_def ex_participant_def ex_choice_def
        seconds_def)
  have inv: "no_self_votes ex_voting \<and> one_vote_per_voter ex_voting"
    by (simp add: no_self_votes_def one_vote_per_voter_def v)
  have e2: "fst (submit_vote ex_env ex_voting 1 2 2)
              = Some (ValidationError ''cannot vote for own card'')"
    using r g d
    by (simp add: submit_vote_def validate_player_in_game_def find_choice_def Let_def
        update_player_activity_def ex_voting_def ex_selecting_def ex_lobby_def ex_env_def
        ex_participant_def ex_choice_def ex_round_def seconds_def)
  from submit_vote_guard[OF r g d, of ex_env 2 1] submit_vote_guard[OF r g d, of ex_env 2 2]
    a1 a2 inv e2 v hd
  show ?thesis by (simp add: ex_env_def)
qed

subsection \<open>Card choices\<close>

lemma ex_submit_third:
  "submit_card_choice ex_env ex_selecting 1 3 ''starter'' 9 = (None, ex_all_chosen)"
  by (simp add: submit_card_choice_def get_round_or_404_def find_round_def get_game_or_404_def
      validate_player_in_game_def update_player_activity_def Let_def ex_all_chosen_def
      ex_selecting_def ex_lobby_def ex_env_def ex_round_def ex_participant_def ex_choice_def
      seconds_def)

lemma ex_all_chosen_complete:
  "length (round_choices ex_all_chosen 1) = 3
   \<and> length (filter is_connected (get_active_players ex_all_chosen 10)) = 3
   \<and> map game_status (games ex_all_chosen) = [CARD_SELECTION]
   \<and> map game_status (games (snd (check_all_players_chose_cards ex_all_chosen 1 1))) = [VOTING]"
  by (simp add: round_choices_def get_active_players_def is_connected_def find_user_def
      check_all_players_chose_cards_def start_voting_def get_round_or_404_def find_round_def
      get_game_or_404_def update_game_def Let_def ex_all_chosen_def
      ex_selecting_def ex_lobby_def ex_round_def ex_participant_def ex_choice_def ex_user_def)

text \<open>
  C5, as stated: after a successful choice the completion condition is checked and, when
  it holds, the game moves to voting. It fails: user 3 submits the third choice of three
  connected participants, the submission succeeds, the condition holds (the service's own
  check would start the voting in that state), and the game is still in card selection.
\<close>

theorem early_advance_counterexample:
  "fst (submit_card_choice ex_env ex_selecting 1 3 ''starter'' 9) = None
   \<and> length (round_choices (snd (submit_card_choice ex_env ex_selecting 1 3 ''starter'' 9)) 1) = 3
   \<and> length (filter is_connected
        (get_active_players (snd (submit_card_choice ex_env ex_selecting 1 3 ''starter'' 9)) 10)) = 3
   \<and> map game_status (games (snd (submit_card_choice ex_env ex_selecting 1 3 ''starter'' 9)))
       = [CARD_SELECTION]
   \<and> map game_status (games (snd (check_all_players_chose_cards
        (snd (submit_card_choice ex_env ex_selecting 1 3 ''starter'' 9)) 1 1))) = [VOTING]"
  using ex_all_chosen_complete by (simp add: ex_submit_third)

lemma submit_choice_success:
  assumes "fst (submit_card_choice e s rid uid ctype cnum) = None"
  shows "\<exists>r g. get_round_or_404 s rid = Inr r
           \<and> get_game_or_404 s (round_game_id r) = Inr g
           \<and> game_status g = CARD_SELECTION
           \<and> get_game_or_404 (snd (submit_card_choice e s rid uid ctype cnum)) (round_game_id r)
               = Inr g
           \<and> games (snd (submit_card_choice e s rid uid ctype cnum)) = games s
           \<and> choices (snd (submit_card_choice e s rid uid ctype cnum)) = choices s @
               [\<lparr>choice_id = next_choice_id s, choice_round_id = rid, choice_user_id = uid,
                 card_type = ctype, card_number = cnum, submitted_at = now e\<rparr>]
           \<and> participants (snd (submit_card_choice e s rid uid ctype cnum))
               = participants (update_player_activity e s uid (game_room_id g))"
  using assms
  by (auto simp: submit_card_choice_def Let_def get_game_or_404_def update_player_activity_def
      split: sum.splits option.splits if_splits)

lemma start_voting_cases:
  assumes r: "get_round_or_404 s rid = Inr r"
    and g: "get_game_or_404 s (round_game_id r) = Inr g"
  shows "(fst (start_voting s rid) = None
            \<longleftrightarrow> game_status g = CARD_SELECTION \<and> length (round_choices s rid) \<ge> 3)
       \<and> (game_status g = CARD_SELECTION \<and> length (round_choices s rid) \<ge> 3 \<longrightarrow>
            start_voting s rid
              = (None, update_game s (round_game_id r) (\<lambda>g. g\<lparr>game_status := VOTING\<rparr>))
            \<and> get_game_or_404 (snd (start_voting s rid)) (round_game_id r)
                = Inr (g\<lparr>game_status := VOTING\<rparr>))
       \<and> (game_status g = CARD_SELECTION \<and> length (round_choices s rid) < 3 \<longrightarrow>
            start_voting s rid = (Some (ValidationError ''voting needs at least 3 choices''), s))
       \<and> (game_status g \<noteq> CARD_SELECTION \<longrightarrow>
            start_voting s rid
              = (Some (ValidationError ''voting starts only after card selection''), s))"
proof -
  have gid: "game_id g = round_game_id r" using g by (rule get_game_or_404_id)
  have upd: "get_game_or_404 (update_game s (round_game_id r) (\<lambda>g. g\<lparr>game_status := VOTING\<rparr>))
               (round_game_id r) = Inr (g\<lparr>game_status := VOTING\<rparr>)"
    by (rule get_game_after_update[OF g]) simp
  show ?thesis using r g upd by (auto simp: start_voting_def gid)
qed

text \<open>
  C5, amended: a successful \<open>submit_card_choice\<close> happens during card selection,
  appends the choice, touches the presence of the player, and leaves every game as it
  was: the completion condition is not checked on submission and the game stays in card
  selection, whatever the number of choices. The game moves to voting when
  \<open>start_voting\<close> is invoked for the round: that succeeds exactly when the game is in
  card selection and the round has at least three choices, and then sets the game to
  \<open>voting\<close>; otherwise it raises a validation error and changes nothing.
\<close>

theorem submit_choice_stays_in_selection:
  "(fst (submit_card_choice e s rid uid ctype cnum) = None \<longrightarrow>
      (\<exists>r g. get_round_or_404 s rid = Inr r
         \<and> get_game_or_404 s (round_game_id r) = Inr g
         \<and> game_status g = CARD_SELECTION
         \<and> get_game_or_404 (snd (submit_card_choice e s rid uid ctype cnum)) (round_game_id r)
             = Inr g
         \<and> games (snd (submit_card_choice e s rid uid ctype cnum)) = games s
         \<and> choices (snd (submit_card_choice e s rid uid ctype cnum)) = choices s @
             [\<lparr>choice_id = next_choice_id s, choice_round_id = rid, choice_user_id = uid,
               card_type = ctype, card_number = cnum, submitted_at = now e\<rparr>]
         \<and> participants (snd (submit_card_choice e s rid uid ctype cnum))
             = participants (update_player_activity e s uid (game_room_id g))))
   \<and> (\<forall>r g. get_round_or_404 s rid = Inr r \<and> get_game_or_404 s (round_game_id r) = Inr g \<longrightarrow>
         (fst (start_voting s rid) = None
            \<longleftrightarrow> game_status g = CARD_SELECTION \<and> length (round_choices s rid) \<ge> 3)
         \<and> (game_status g = CARD_SELECTION \<and> length (round_choices s rid) \<ge> 3 \<longrightarrow>
              start_voting s rid
                = (None, update_game s (round_game_id r) (\<lambda>g. g\<lparr>game_status := VOTING\<rparr>))
              \<and> get_game_or_404 (snd (start_voting s rid)) (round_game_id r)
                  = Inr (g\<lparr>game_status := VOTING\<rparr>))
         \<and> (game_status g = CARD_SELECTION \<and> length (round_choices s rid) < 3 \<longrightarrow>
              start_voting s rid
                = (Some (ValidationError ''voting needs at least 3 choices''), s))
         \<and> (game_status g \<noteq> CARD_SELECTION \<longrightarrow>
              start_voting s rid
                = (Some (ValidationError ''voting starts only after card selection''), s)))"
  using submit_choice_success[of e s rid uid ctype cnum] start_voting_cases[of s rid]
  by blast

theorem submit_choice_stays_in_selection_witness:
  "fst (submit_card_choice ex_env ex_selecting 1 3 ''starter'' 9) = None
   \<and> map game_status (games (snd (submit_card_choice ex_env ex_selecting 1 3 ''starter'' 9)))
       = [CARD_SELECTION]
   \<and> map choice_user_id (choices (snd (submit_card_choice ex_env ex_selecting 1 3 ''starter'' 9)))
       = [1, 2, 3]
   \<and> start_voting ex_selecting 1
       = (Some (ValidationError ''voting needs at least 3 choices''), ex_selecting)
   \<and> fst (start_voting ex_all_chosen 1) = None
   \<and> map_sum id game_status (get_game_or_404 (snd (start_voting ex_all_chosen 1)) 1) = Inr VOTING"
proof -
  let ?g = "\<lparr>game_id = 1, game_room_id = 10, game_status = CARD_SELECTION,
             current_round = 2, winner_id = None, finished_at = None\<rparr>"
  have h: "fst (submit_card_choice ex_env ex_selecting 1 3 ''starter'' 9) = None"
    by (simp add: ex_submit_third)
  have g: "map game_status (games ex_selecting) = [CARD_SELECTION]"
    and c: "map choice_user_id (choices ex_selecting) = [1, 2]"
    by (simp_all add: ex_selecting_def ex_lobby_def ex_choice_def)
  have r1: "get_round_or_404 ex_selecting 1 = Inr ex_round"
    and r2: "get_round_or_404 ex_all_chosen 1 = Inr ex_round"
    by (simp_all add: get_round_or_404_def find_round_def ex_all_chosen_def ex_selecting_def
        ex_lobby_def ex_round_def)
  have g1: "get_game_or_404 ex_selecting (round_game_id ex_round) = Inr ?g"
    and g2: "get_game_or_404 ex_all_chosen (round_game_id ex_round) = Inr ?g"
    by (simp_all add: get_game_or_404_def ex_all_chosen_def ex_selecting_def ex_lobby_def
        ex_round_def)
  have n1: "length (round_choices ex_selecting 1) < 3"
    and n2: "length (round_choices ex_all_chosen 1) \<ge> 3"
    by (simp_all add: round_choices_def ex_all_chosen_def ex_selecting_def ex_lobby_def
        ex_choice_def)
  have rg: "round_game_id ex_round = 1" by (simp add: ex_round_def)
  note a = submit_choice_stays_in_selection[of ex_env ex_selecting 1 3 "''starter''" 9,
      THEN conjunct1, rule_format, OF h]
  note b1 = submit_choice_stays_in_selection[of ex_env ex_selecting 1 3 "''starter''" 9,
      THEN conjunct2, rule_format, OF conjI[OF r1 g1]]
  note b2 = submit_choice_stays_in_selection[of ex_env ex_all_chosen 1 3 "''starter''" 9,
      THEN conjunct2, rule_format, OF conjI[OF r2 g2]]
  have sv1: "start_voting ex_selecting 1
       = (Some (ValidationError ''voting needs at least 3 choices''), ex_selecting)"
    using b1 n1 by simp
  have sv2: "fst (start_voting ex_all_chosen 1) = None
     \<and> map_sum id game_status (get_game_or_404 (snd (start_voting ex_all_chosen 1)) 1) = Inr VOTING"
  proof -
    have gs: "game_status ?g = CARD_SELECTION" by simp
    from b2 n2 gs have x: "fst (start_voting ex_all_chosen 1) = None" by blast
    from b2 n2 gs have "get_game_or_404 (snd (start_voting ex_all_chosen 1)) (round_game_id ex_round)
                       = Inr (?g\<lparr>game_status := VOTING\<rparr>)" by blast
    then have "map_sum id game_status (get_game_or_404 (snd (start_voting ex_all_chosen 1)) 1)
                 = Inr VOTING"
      by (simp only: rg) simp
    with x show ?thesis by simp
  qed
  from a g c h sv1 sv2 show ?thesis by auto
qed

subsection \<open>Starting a game and its rounds\<close>

lemma ex_started_eq:
  "start_game ex_lobby 10 1 =
     (Inr 1, ex_lobby\<lparr>rooms := [ex_room\<lparr>room_status := RoomPLAYING\<rparr>],
                      games := [\<lparr>game_id = 1, game_room_id = 10, game_status = STARTING,
                                 current_round = 1, winner_id = None, finished_at = None\<rparr>],
                      next_game_id := 2\<rparr>)"
  by (simp add: start_game_def get_room_or_404_def find_room_def get_active_players_count_def
      update_room_def Let_def ex_lobby_def ex_room_def ex_participant_def)

lemma ex_started_state:
  "ex_started = ex_lobby\<lparr>rooms := [ex_room\<lparr>room_status := RoomPLAYING\<rparr>],
                      games := [\<lparr>game_id = 1, game_room_id = 10, game_status = STARTING,
                                 current_round = 1, winner_id = None, finished_at = None\<rparr>],
                      next_game_id := 2\<rparr>"
  by (simp add: ex_started_def ex_started_eq)

lemma ex_first_round:
  "start_round ex_env ex_started 1 None =
     (None, ex_lobby\<lparr>rooms := [ex_room\<lparr>room_status := RoomPLAYING\<rparr>],
                     games := [\<lparr>game_id = 1, game_room_id = 10, game_status = CARD_SELECTION,
                                current_round = 2, winner_id = None, finished_at = None\<rparr>],
                     rounds := [ex_round\<lparr>situation_text := GeneratingPlaceholder 2\<rparr>],
                     next_game_id := 2, next_round_id := 2\<rparr>)"
  unfolding ex_started_state
  by (simp add: start_round_def get_game_or_404_def
      cleanup_inactive_players_def get_active_players_def find_user_def find_room_def
      round_duration_def update_game_def Let_def
      CARD_SELECTION_TIMEOUT_def VOTING_TIMEOUT_def MAX_DISCONNECT_COUNT_def
      MAX_MISSED_ACTIONS_def seconds_def
      ex_lobby_def ex_room_def ex_participant_def ex_user_def ex_env_def ex_round_def)

text \<open>
  C1: the code at an input of the claim. The round that \<open>start_round\<close> creates for a
  game fresh from \<open>start_game\<close> lasts 300 seconds, which is no entry of the schedule
  50, 45, 40, 35, 30, 30, 30 that the claim and the comments of \<open>start_round\<close> give.
  Its deadlines are related as the claim says: selection ends 300 seconds after the start
  and voting 180 seconds later.
\<close>

theorem first_round_lasts_300_seconds:
  "map duration_seconds (rounds (snd (start_round ex_env ex_started 1 None))) = [300]
   \<and> (300::int) \<notin> set [50, 45, 40, 35, 30, 30, 30]
   \<and> map started_at (rounds (snd (start_round ex_env ex_started 1 None)))
       = [Some (now ex_env)]
   \<and> map selection_deadline (rounds (snd (start_round ex_env ex_started 1 None)))
       = [Some (now ex_env + seconds 300)]
   \<and> map voting_deadline (rounds (snd (start_round ex_env ex_started 1 None)))
       = [Some (now ex_env + seconds 300 + seconds 180)]"
  by (simp add: ex_first_round ex_round_def) (simp add: ex_env_def seconds_def)

text \<open>
  C2: the code at the input of the claim. \<open>start_game\<close> creates the game with
  \<open>current_round = 1\<close>, and the first \<open>start_round\<close> numbers its round
  \<open>current_round + 1\<close>: the first round of the game has number 2, not 1.
\<close>

theorem first_round_is_numbered_two:
  "start_game ex_lobby 10 1 = (Inr 1, ex_started)
   \<and> map current_round (games ex_started) = [1]
   \<and> fst (start_round ex_env ex_started 1 None) = None
   \<and> map round_number (rounds (snd (start_round ex_env ex_started 1 None))) = [2]
   \<and> map current_round (games (snd (start_round ex_env ex_started 1 None))) = [2]"
proof -
  have "start_game ex_lobby 10 1 = (Inr 1, ex_started)"
    by (simp add: ex_started_eq ex_started_state)
  moreover have "map current_round (games ex_started) = [1]"
    by (simp add: ex_started_state)
  ultimately show ?thesis
    by (simp add: ex_first_round ex_round_def)
qed

lemma cleanup_tables [simp]:
  "rooms (cleanup_inactive_players s rid) = rooms s"
  "rounds (cleanup_inactive_players s rid) = rounds s"
  "games (cleanup_inactive_players s rid) = games s"
  "next_round_id (cleanup_inactive_players s rid) = next_round_id s"
  by (simp_all add: cleanup_inactive_players_def Let_def)

text \<open>
  What \<open>start_round\<close> writes when it starts a round: the duration it computes from the
  round counter of the game, and the two deadlines.
\<close>

lemma start_round_creates_round:
  assumes "get_game_or_404 s gid = Inr g"
    and "game_status g = STARTING \<or> game_status g = ROUND_RESULTS"
    and "length (get_active_players (cleanup_inactive_players s (game_room_id g))
                   (game_room_id g)) \<ge> 3"
    and "txt \<noteq> None \<or> find_room s (game_room_id g) \<noteq> None"
  shows "\<exists>r s'. start_round e s gid txt = (None, s') \<and> rounds s' = rounds s @ [r]
           \<and> duration_seconds r =
               (if current_round g \<le> 5 then 300 - 5 * (current_round g - 1) else 30)
           \<and> started_at r = Some (now e)
           \<and> selection_deadline r = Some (now e + seconds (duration_seconds r))
           \<and> voting_deadline r = Some (now e + seconds (duration_seconds r) + seconds 180)"
proof -
  have sec: "seconds (a + b) = seconds a + seconds b" for a b
    by (simp add: seconds_def algebra_simps)
  show ?thesis
    using assms
    by (auto simp: start_round_def Let_def round_duration_def update_game_def find_room_def
        CARD_SELECTION_TIMEOUT_def VOTING_TIMEOUT_def sec split: option.splits)
qed

subsection \<open>Results of a round\<close>

lemma votes_for_choice_nonneg: "0 \<le> votes_for_choice s cid"
  by (simp add: votes_for_choice_def)

lemma pick_winner_keep:
  "\<forall>row\<in>set rest. snd row \<le> m \<Longrightarrow> pick_winner rest (w, m) = (w, m)"
  by (induction rest) auto

lemma vote_counts_query_sorted:
  "sorted (map (\<lambda>row. - snd row) (vote_counts_query e s rid))"
  unfolding vote_counts_query_def by (rule sorted_sort_key)

lemma vote_counts_query_nonneg:
  "row \<in> set (vote_counts_query e s rid) \<Longrightarrow> 0 \<le> snd row"
  by (auto simp: vote_counts_query_def votes_for_choice_nonneg)

lemma vote_counts_query_user:
  "row \<in> set (vote_counts_query e s rid) \<Longrightarrow> find_user s (choice_user_id (fst row)) \<noteq> None"
  by (auto simp: vote_counts_query_def)

lemma vote_counts_query_first_max:
  assumes "vote_counts_query e s rid = row # rest"
  shows "\<forall>x\<in>set rest. snd x \<le> snd row"
  using vote_counts_query_sorted[of e s rid] unfolding assms by auto

lemma pick_winner_first:
  assumes "vote_counts_query e s rid = row # rest"
  shows "pick_winner (vote_counts_query e s rid) (None, -1) = (Some (fst row), snd row)"
proof -
  have "0 \<le> snd row" using vote_counts_query_nonneg[of row e s rid] assms by simp
  then show ?thesis
    unfolding assms using pick_winner_keep[OF vote_counts_query_first_max[OF assms]]
    by (cases row) simp
qed

lemma find_user_tables [simp]:
  "find_user (update_game s gid f) uid = find_user s uid"
  "find_user (update_round s rid h) uid = find_user s uid"
  by (simp_all add: find_user_def update_game_def update_round_def)

lemma users_tables [simp]:
  "users (update_game s gid f) = users s"
  "users (update_round s rid h) = users s"
  by (simp_all add: update_game_def update_round_def)

lemma award_round_points_rating:
  assumes "find_user s uid = Some u"
  shows "find_user (award_round_points s uid) uid = Some (u\<lparr>rating := rating u + 1\<rparr>)"
proof -
  have f: "find (\<lambda>u. user_id u = uid) (users s) = Some u"
    using assms by (simp add: find_user_def)
  have "user_id u = uid" using f by (auto dest: find_Some_holds)
  with find_map_update[OF f, where k = user_id and f = "\<lambda>q. q\<lparr>rating := rating u + 1\<rparr>"] assms
  show ?thesis by (simp add: award_round_points_def update_user_def find_user_def)
qed

text \<open>
  C4, amended: the winner of a round is the choice in the first row of the vote-count
  query. That row has the highest vote count; among choices tied for it, it is the one the
  database returns first, which the code does not relate to the submission times. The
  winner's user gains one rating point exactly when that highest count is positive; with no
  choice, or with a highest count of zero, no rating changes.
\<close>

theorem round_winner_is_first_row:
  "(vote_counts_query e s rid = [] \<longrightarrow>
      pick_winner (vote_counts_query e s rid) (None, -1) = (None, -1)
      \<and> users (close_round e s g rid) = users s)
   \<and> (\<forall>row rest. vote_counts_query e s rid = row # rest \<longrightarrow>
         pick_winner (vote_counts_query e s rid) (None, -1) = (Some (fst row), snd row)
         \<and> (\<forall>x\<in>set rest. snd x \<le> snd row)
         \<and> (snd row > 0 \<longrightarrow>
              (\<exists>u. find_user s (choice_user_id (fst row)) = Some u
                 \<and> find_user (close_round e s g rid) (choice_user_id (fst row))
                     = Some (u\<lparr>rating := rating u + 1\<rparr>)))
         \<and> (snd row \<le> 0 \<longrightarrow> users (close_round e s g rid) = users s))"
proof (intro conjI allI impI)
  assume "vote_counts_query e s rid = []"
  then show "pick_winner (vote_counts_query e s rid) (None, -1) = (None, -1)"
    and "users (close_round e s g rid) = users s"
    by (simp_all add: close_round_def)
next
  fix row rest
  assume q: "vote_counts_query e s rid = row # rest"
  show pw: "pick_winner (vote_counts_query e s rid) (None, -1) = (Some (fst row), snd row)"
    by (rule pick_winner_first[OF q])
  show "\<forall>x\<in>set rest. snd x \<le> snd row"
    by (rule vote_counts_query_first_max[OF q])
  {
    assume pos: "snd row > 0"
    obtain u where u: "find_user s (choice_user_id (fst row)) = Some u"
      using vote_counts_query_user[of row e s rid] q by auto
    let ?s2 = "update_round (update_game s (game_id g) (\<lambda>g. g\<lparr>game_status := ROUND_RESULTS\<rparr>))
                 rid (\<lambda>r. r\<lparr>round_finished_at := Some (now e)\<rparr>)"
    have "find_user ?s2 (choice_user_id (fst row)) = Some u" using u by simp
    from award_round_points_rating[OF this] pos
    have "find_user (close_round e s g rid) (choice_user_id (fst row))
            = Some (u\<lparr>rating := rating u + 1\<rparr>)"
      by (simp add: close_round_def pw)
    with u show "\<exists>u. find_user s (choice_user_id (fst row)) = Some u
                 \<and> find_user (close_round e s g rid) (choice_user_id (fst row))
                     = Some (u\<lparr>rating := rating u + 1\<rparr>)" by simp
  }
  {
    assume "snd row \<le> 0"
    then show "users (close_round e s g rid) = users s"
      by (simp add: close_round_def pw)
  }
qed


lemma ex_tied_counts:
  "votes_for_choice ex_tied 1 = 1 \<and> votes_for_choice ex_tied 2 = 1
   \<and> votes_for_choice ex_tied 3 = 0"
  by (simp add: votes_for_choice_def ex_tied_def ex_voting_def ex_selecting_def ex_lobby_def
      ex_vote_def)

lemma ex_tied_choices:
  "round_choices ex_tied 1 =
     [ex_choice 1 1 ''starter'' 3 (seconds 1010), ex_choice 2 2 ''standard'' 7 (seconds 1020),
      ex_choice 3 3 ''starter'' 9 (seconds 1030)]"
  by (simp add: round_choices_def ex_tied_def ex_voting_def ex_selecting_def ex_lobby_def
      ex_choice_def)

lemma ex_tied_users:
  "find_user ex_tied 1 = Some (ex_user 1 ''alice'')"
  "find_user ex_tied 2 = Some (ex_user 2 ''bob'')"
  "find_user ex_tied 3 = Some (ex_user 3 ''carol'')"
  by (simp_all add: find_user_def ex_tied_def ex_voting_def ex_selecting_def ex_lobby_def
      ex_user_def)

lemma ex_tied_query:
  "vote_counts_query ex_env ex_tied 1 =
     [(ex_choice 1 1 ''starter'' 3 (seconds 1010), 1),
      (ex_choice 2 2 ''standard'' 7 (seconds 1020), 1),
      (ex_choice 3 3 ''starter'' 9 (seconds 1030), 0)]"
  unfolding vote_counts_query_def ex_tied_choices
  by (simp add: ex_tied_users ex_choice_def ex_tied_counts ex_env_def)

lemma ex_tied_query_desc:
  "vote_counts_query ex_env_desc ex_tied 1 =
     [(ex_choice 2 2 ''standard'' 7 (seconds 1020), 1),
      (ex_choice 1 1 ''starter'' 3 (seconds 1010), 1),
      (ex_choice 3 3 ''starter'' 9 (seconds 1030), 0)]"
  unfolding vote_counts_query_def ex_tied_choices
  by (simp add: ex_tied_users ex_choice_def ex_tied_counts ex_env_desc_def ex_env_def)

lemma ex_tied_close_desc:
  "map rating (users (close_round ex_env_desc ex_tied ex_game_voting 1)) = [0, 1, 0, 0]"
  unfolding close_round_def ex_tied_query_desc
  by (simp add: award_round_points_def ex_choice_def)
     (simp add: find_user_def update_user_def ex_tied_def ex_voting_def ex_selecting_def
       ex_lobby_def ex_user_def)


lemma ex_tied_lookup:
  "get_round_or_404 ex_tied 1 = Inr ex_round"
  "get_game_or_404 ex_tied (round_game_id ex_round) = Inr ex_game_voting"
  by (simp_all add: get_round_or_404_def find_round_def get_game_or_404_def ex_tied_def
      ex_voting_def ex_selecting_def ex_lobby_def ex_round_def ex_game_voting_def)

lemma users_start_round:
  assumes "get_game_or_404 s gid = Inr g"
    and "length (get_active_players (cleanup_inactive_players s (game_room_id g))
                   (game_room_id g)) \<ge> 3"
  shows "users (snd (start_round e s gid txt)) = users s"
  using assms
  by (auto simp: start_round_def Let_def update_game_def cleanup_inactive_players_def
      split: option.splits sum.splits)

lemma ex_tied_closed:
  "close_round ex_env_desc ex_tied ex_game_voting 1 = ex_closed"
  unfolding close_round_def ex_tied_query_desc
  by (simp add: award_round_points_def ex_choice_def)
     (simp add: find_user_def update_user_def update_game_def update_round_def ex_closed_def
       ex_game_voting_def ex_tied_def ex_voting_def ex_selecting_def ex_lobby_def ex_user_def
       ex_round_def ex_env_desc_def ex_env_def)

lemma ex_tied_results_desc:
  "map rating (users (snd (calculate_round_results ex_env_desc ex_tied 1))) = [0, 1, 0, 0]"
proof -
  let ?g = "ex_game_voting\<lparr>game_status := ROUND_RESULTS\<rparr>"
  let ?e' = "ex_env_desc\<lparr>now := now ex_env_desc + seconds RESULTS_DISPLAY_TIME\<rparr>"
  have g: "get_game_or_404 ex_closed 1 = Inr ?g"
    by (simp add: ex_closed_def get_game_or_404_def ex_game_voting_def)
  have n: "length (get_active_players (cleanup_inactive_players ex_closed (game_room_id ?g))
                     (game_room_id ?g)) \<ge> 3"
    by (simp add: ex_closed_def cleanup_inactive_players_def get_active_players_def find_user_def
        MAX_DISCONNECT_COUNT_def MAX_MISSED_ACTIONS_def ex_game_voting_def
        ex_tied_def ex_voting_def ex_selecting_def ex_lobby_def ex_participant_def ex_user_def)
  have rm: "find_room ex_closed (game_room_id ?g) \<noteq> None"
    by (simp add: find_room_def ex_closed_def ex_game_voting_def ex_tied_def ex_voting_def
        ex_selecting_def ex_lobby_def ex_room_def)
  have st: "fst (start_round ?e' ex_closed 1 None) = None"
    using g n rm by (auto simp: start_round_def Let_def find_room_def split: option.splits)
  have "calculate_round_results ex_env_desc ex_tied 1
          = (None, schedule_next_round ex_env_desc ex_closed 1 2)"
    by (simp add: calculate_round_results_def ex_tied_lookup ex_tied_closed)
       (simp add: ex_game_voting_def ex_round_def)
  moreover have "schedule_next_round ex_env_desc ex_closed 1 2
                   = snd (start_round ?e' ex_closed 1 None)"
    using g st by (auto simp: schedule_next_round_def Let_def split: prod.splits)
  ultimately have "users (snd (calculate_round_results ex_env_desc ex_tied 1)) = users ex_closed"
    using users_start_round[OF g n, of ?e' None] by simp
  then show ?thesis
    by (simp add: ex_closed_def ex_user_def)
qed


lemma ex_voting_no_points:
  "map rating (users (close_round ex_env ex_voting ex_game_voting 1)) = [0, 0, 0, 0]"
proof -
  have q: "vote_counts_query ex_env ex_voting 1 =
     [(ex_choice 1 1 ''starter'' 3 (seconds 1010), 0),
      (ex_choice 2 2 ''standard'' 7 (seconds 1020), 0),
      (ex_choice 3 3 ''starter'' 9 (seconds 1030), 0)]"
    by (simp add: vote_counts_query_def round_choices_def find_user_def votes_for_choice_def
        ex_voting_def ex_selecting_def ex_lobby_def ex_choice_def ex_user_def ex_env_def)
  show ?thesis
    unfolding close_round_def q
    by (simp add: ex_voting_def ex_selecting_def ex_lobby_def ex_user_def)
qed

text \<open>
  C4, as stated: among choices tied for the highest count, the earliest submitted wins and
  its user gains a rating point. It fails twice. In \<open>ex_tied\<close> the choices of users 1
  and 2 have one vote each and user 1 submitted first; with a database that returns the
  tied rows by decreasing key, the point goes to user 2. In \<open>ex_voting\<close> the three
  choices are tied at zero votes and nobody gains a point.
\<close>

theorem tie_break_counterexample:
  "map choice_user_id (round_choices ex_tied 1) = [1, 2, 3]
   \<and> map submitted_at (round_choices ex_tied 1) = [seconds 1010, seconds 1020, seconds 1030]
   \<and> votes_for_choice ex_tied 1 = 1 \<and> votes_for_choice ex_tied 2 = 1
   \<and> votes_for_choice ex_tied 3 = 0
   \<and> map rating (users ex_tied) = [0, 0, 0, 0]
   \<and> map rating (users (snd (calculate_round_results ex_env_desc ex_tied 1))) = [0, 1, 0, 0]
   \<and> map rating (users (close_round ex_env ex_voting ex_game_voting 1)) = [0, 0, 0, 0]"
  using ex_tied_counts ex_tied_results_desc ex_voting_no_points
  by (simp add: ex_tied_choices ex_choice_def)
     (simp add: ex_tied_def ex_voting_def ex_selecting_def ex_lobby_def ex_user_def)

theorem round_winner_is_first_row_witness:
  "vote_counts_query ex_env ex_tied 1 =
     [(ex_choice 1 1 ''starter'' 3 (seconds 1010), 1),
      (ex_choice 2 2 ''standard'' 7 (seconds 1020), 1),
      (ex_choice 3 3 ''starter'' 9 (seconds 1030), 0)]
   \<and> pick_winner (vote_counts_query ex_env ex_tied 1) (None, -1)
       = (Some (ex_choice 1 1 ''starter'' 3 (seconds 1010)), 1)
   \<and> find_user (close_round ex_env ex_tied ex_game_voting 1) 1
       = Some ((ex_user 1 ''alice'')\<lparr>rating := 1\<rparr>)"
proof -
  note q = ex_tied_query
  have u: "find_user ex_tied 1 = Some (ex_user 1 ''alice'')" by (rule ex_tied_users)
  have r0: "rating (ex_user 1 ''alice'') = 0" by (simp add: ex_user_def)
  from round_winner_is_first_row[of ex_env ex_tied 1 ex_game_voting] q u r0
  show ?thesis by (simp add: ex_choice_def)
qed

subsection \<open>End of a game\<close>

lemma update_tables [simp]:
  "users (update_room s rid f) = users s"
  "user_cards (update_room s rid f) = user_cards s"
  "user_cards (update_game s gid h) = user_cards s"
  "user_cards (update_user s uid k) = user_cards s"
  "next_card_id (update_room s rid f) = next_card_id s"
  "next_card_id (update_game s gid h) = next_card_id s"
  "next_card_id (update_user s uid k) = next_card_id s"
  "games (update_room s rid f) = games s"
  "games (update_user s uid k) = games s"
  "rooms (update_game s gid h) = rooms s"
  "rooms (update_user s uid k) = rooms s"
  by (simp_all add: update_room_def update_game_def update_user_def)

lemma award_points_tables [simp]:
  "user_cards (award_game_victory_points s uid) = user_cards s"
  "next_card_id (award_game_victory_points s uid) = next_card_id s"
  "games (award_game_victory_points s uid) = games s"
  "rooms (award_game_victory_points s uid) = rooms s"
  by (simp_all add: award_game_victory_points_def split: option.splits)

lemma award_card_tables [simp]:
  "users (award_winner_card_async e s uid) = users s"
  "games (award_winner_card_async e s uid) = games s"
  "rooms (award_winner_card_async e s uid) = rooms s"
  by (simp_all add: award_winner_card_async_def Let_def)

lemma available_cards_cong:
  "user_cards s' = user_cards s \<Longrightarrow>
     get_available_standard_cards_for_user e s' uid = get_available_standard_cards_for_user e s uid"
  by (simp add: get_available_standard_cards_for_user_def)

lemma available_card_fresh:
  assumes "n \<in> set (get_available_standard_cards_for_user e s uid)"
  shows "n \<in> set (standard_cards e)
       \<and> find (\<lambda>c. uc_user_id c = uid \<and> uc_card_type c = ''standard'' \<and> uc_card_number c = n)
               (user_cards s) = None"
  using assms by (auto simp: get_available_standard_cards_for_user_def find_None_iff_all)

lemma award_winner_card_async_result:
  "user_cards (award_winner_card_async e s uid) =
     (if get_available_standard_cards_for_user e s uid = [] then user_cards s
      else user_cards s @
             [\<lparr>uc_id = next_card_id s, uc_user_id = uid, uc_card_type = ''standard'',
               uc_card_number =
                 get_available_standard_cards_for_user e s uid
                   ! (rand e mod length (get_available_standard_cards_for_user e s uid)),
               obtained_at = now e\<rparr>])"
  by (simp add: award_winner_card_async_def Let_def)

lemma award_game_victory_points_rating:
  assumes "find_user s uid = Some u"
  shows "find_user (award_game_victory_points s uid) uid = Some (u\<lparr>rating := rating u + 5\<rparr>)"
proof -
  have f: "find (\<lambda>u. user_id u = uid) (users s) = Some u"
    using assms by (simp add: find_user_def)
  have "user_id u = uid" using f by (auto dest: find_Some_holds)
  with find_map_update[OF f, where k = user_id and f = "\<lambda>q. q\<lparr>rating := rating u + 5\<rparr>"] assms
  show ?thesis by (simp add: award_game_victory_points_def update_user_def find_user_def)
qed

lemma player_stats_first_max:
  assumes "player_stats e s gid = row # rest"
  shows "\<forall>x\<in>set rest. snd x \<le> snd row"
proof -
  have "sorted (map (\<lambda>row. - snd row) (player_stats e s gid))"
    unfolding player_stats_def by (rule sorted_sort_key)
  then show ?thesis unfolding assms by auto
qed

lemma player_stats_user:
  assumes "row \<in> set (player_stats e s gid)"
  shows "find_user s (fst row) \<noteq> None"
proof -
  from assms obtain u where "u \<in> set (users s)" "fst row = user_id u"
    by (auto simp: player_stats_def)
  then show ?thesis by (auto simp: find_user_def find_None_iff_all)
qed

lemma find_room_after_update:
  assumes "find_room s rid = Some r" and keeps_id: "\<And>q. room_id (f q) = room_id q"
  shows "find_room (update_room s rid f) rid = Some (f r)"
proof -
  from assms(1) have f: "find (\<lambda>r. room_id r = rid) (rooms s) = Some r"
    by (simp add: find_room_def)
  have "room_id r = rid" using f by (auto dest: find_Some_holds)
  with find_map_update[OF f, where k = room_id and f = f] keeps_id
  show ?thesis by (simp add: find_room_def update_room_def)
qed

lemma get_game_cong: "games s' = games s \<Longrightarrow> get_game_or_404 s' gid = get_game_or_404 s gid"
  by (simp add: get_game_or_404_def)

lemma find_room_cong: "rooms s' = rooms s \<Longrightarrow> find_room s' rid = find_room s rid"
  by (simp add: find_room_def)

lemma find_user_cong: "users s' = users s \<Longrightarrow> find_user s' uid = find_user s uid"
  by (simp add: find_user_def)

lemma ex_voting_stats: "player_stats ex_env ex_voting 1 = [(1, 0), (2, 0), (3, 0)]"
  by (simp add: player_stats_def game_choices_of_def round_wins_of_def votes_for_choice_def
      find_round_def ex_voting_def ex_selecting_def ex_lobby_def ex_user_def ex_choice_def
      ex_round_def ex_env_def)

lemma ex_tied_stats: "player_stats ex_env ex_tied 1 = [(1, 1), (2, 1), (3, 0)]"
  by (simp add: player_stats_def game_choices_of_def round_wins_of_def votes_for_choice_def
      find_round_def ex_tied_def ex_voting_def ex_selecting_def ex_lobby_def ex_user_def
      ex_choice_def ex_vote_def ex_round_def ex_env_def)

lemma ex_voting_game: "get_game_or_404 ex_voting 1 = Inr ex_game_voting"
  by (simp add: get_game_or_404_def ex_voting_def ex_selecting_def ex_lobby_def
      ex_game_voting_def)

lemma ex_tied_game: "get_game_or_404 ex_tied 1 = Inr ex_game_voting"
  by (simp add: get_game_or_404_def ex_tied_def ex_voting_def ex_selecting_def ex_lobby_def
      ex_game_voting_def)

lemma end_game_unfold:
  assumes "get_game_or_404 s gid = Inr g"
  shows "end_game_with_task e s gid =
     (let s2 = update_room
                 (update_game s gid
                    (\<lambda>g. g\<lparr>game_status := FINISHED, winner_id := top_player e s gid,
                           finished_at := Some (now e)\<rparr>))
                 (game_room_id g) (\<lambda>r. r\<lparr>room_status := RoomFINISHED\<rparr>)
      in if game_winner_rewarded e s gid
         then ((None, award_game_victory_points s2 (the (top_player e s gid))),
               top_player e s gid)
         else ((None, s2), None))"
  using assms
  by (simp add: end_game_with_task_def Let_def game_winner_rewarded_def top_player_def
      split: list.splits)

lemma award_winner_card_async_adds:
  "(get_available_standard_cards_for_user e t w = []
      \<and> user_cards (award_winner_card_async e t w) = user_cards t)
   \<or> (\<exists>n. n \<in> set (standard_cards e)
          \<and> find (\<lambda>c. uc_user_id c = w \<and> uc_card_type c = ''standard'' \<and> uc_card_number c = n)
                  (user_cards t) = None
          \<and> user_cards (award_winner_card_async e t w) = user_cards t @
              [\<lparr>uc_id = next_card_id t, uc_user_id = w, uc_card_type = ''standard'',
                uc_card_number = n, obtained_at = now e\<rparr>])"
proof (cases "get_available_standard_cards_for_user e t w = []")
  case True
  then show ?thesis by (simp add: award_winner_card_async_result)
next
  case False
  let ?av = "get_available_standard_cards_for_user e t w"
  have "?av ! (rand e mod length ?av) \<in> set ?av"
    using False by (intro nth_mem) simp
  from available_card_fresh[OF this] False show ?thesis
    by (auto simp: award_winner_card_async_result)
qed

text \<open>
  C3, amended: \<open>end_game\<close> on an existing game succeeds, sets the game to
  \<open>finished\<close> with the finish time and the room, if it exists, to \<open>finished\<close>. It
  computes the count \<open>round_wins\<close> of every participant who made a choice and orders
  them by it; the first of them, who has the highest count, becomes the winner of the
  game, also when that count is zero, and there is no winner only when nobody made a
  choice. Exactly when the count of the winner is at least one (and the id is not zero),
  the winner gets five rating points and \<open>end_game\<close> creates the task that awards the
  card; otherwise no rating changes and no task is created. \<open>end_game\<close> itself adds no
  card. The task, when it runs, adds one standard card of the catalogue that the user does
  not own, or nothing when there is no such card.
\<close>

theorem end_game_winner_and_reward:
  assumes "get_game_or_404 s gid = Inr g"
  shows "fst (end_game e s gid) = None
       \<and> get_game_or_404 (snd (end_game e s gid)) gid
           = Inr (g\<lparr>game_status := FINISHED, winner_id := top_player e s gid,
                    finished_at := Some (now e)\<rparr>)
       \<and> (\<forall>r. find_room s (game_room_id g) = Some r \<longrightarrow>
             find_room (snd (end_game e s gid)) (game_room_id g)
               = Some (r\<lparr>room_status := RoomFINISHED\<rparr>))
       \<and> (player_stats e s gid = [] \<longrightarrow> top_player e s gid = None)
       \<and> (\<forall>row rest. player_stats e s gid = row # rest \<longrightarrow>
             top_player e s gid = Some (fst row) \<and> (\<forall>x\<in>set rest. snd x \<le> snd row))
       \<and> (game_winner_rewarded e s gid \<longrightarrow>
            (\<exists>w u. top_player e s gid = Some w \<and> find_user s w = Some u
               \<and> find_user (snd (end_game e s gid)) w = Some (u\<lparr>rating := rating u + 5\<rparr>)
               \<and> snd (end_game_with_task e s gid) = Some w))
       \<and> (\<not> game_winner_rewarded e s gid \<longrightarrow>
            users (snd (end_game e s gid)) = users s
            \<and> snd (end_game_with_task e s gid) = None)
       \<and> user_cards (snd (end_game e s gid)) = user_cards s
       \<and> (\<forall>t w. (get_available_standard_cards_for_user e t w = []
                    \<and> user_cards (award_winner_card_async e t w) = user_cards t)
                \<or> (\<exists>n. n \<in> set (standard_cards e)
                      \<and> find (\<lambda>c. uc_user_id c = w \<and> uc_card_type c = ''standard''
                                    \<and> uc_card_number c = n) (user_cards t) = None
                      \<and> user_cards (award_winner_card_async e t w) = user_cards t @
                          [\<lparr>uc_id = next_card_id t, uc_user_id = w,
                            uc_card_type = ''standard'', uc_card_number = n,
                            obtained_at = now e\<rparr>]))"
proof -
  let ?F = "\<lambda>g. g\<lparr>game_status := FINISHED, winner_id := top_player e s gid,
                   finished_at := Some (now e)\<rparr>"
  let ?R = "\<lambda>r. r\<lparr>room_status := RoomFINISHED\<rparr>"
  let ?s1 = "update_game s gid ?F"
  let ?s2 = "update_room ?s1 (game_room_id g) ?R"
  let ?s' = "snd (end_game e s gid)"
  note unf = end_game_unfold[OF assms, of e]
  have tabs: "games ?s' = games ?s1" "rooms ?s' = rooms ?s2"
    by (simp_all add: end_game_def unf Let_def)
  have c1: "fst (end_game e s gid) = None" by (simp add: end_game_def unf Let_def)
  have g1: "get_game_or_404 ?s1 gid = Inr (?F g)"
    by (rule get_game_after_update[OF assms]) simp
  have c2: "get_game_or_404 ?s' gid = Inr (?F g)"
    using get_game_cong[OF tabs(1), of gid] g1 by simp
  have c3: "find_room ?s' (game_room_id g) = Some (?R r)"
    if "find_room s (game_room_id g) = Some r" for r
  proof -
    have "find_room ?s1 (game_room_id g) = Some r"
      using that by (simp add: find_room_def)
    then have "find_room ?s2 (game_room_id g) = Some (?R r)"
      by (rule find_room_after_update) simp
    then show ?thesis using find_room_cong[OF tabs(2), of "game_room_id g"] by simp
  qed
  have c4a: "player_stats e s gid = [] \<longrightarrow> top_player e s gid = None"
    by (simp add: top_player_def)
  have c4: "top_player e s gid = Some (fst row) \<and> (\<forall>x\<in>set rest. snd x \<le> snd row)"
    if "player_stats e s gid = row # rest" for row rest
    using that player_stats_first_max[OF that] by (simp add: top_player_def)
  have c6: "users ?s' = users s \<and> snd (end_game_with_task e s gid) = None"
    if "\<not> game_winner_rewarded e s gid"
    using that by (simp add: end_game_def unf Let_def)
  have c7: "user_cards ?s' = user_cards s"
    by (simp add: end_game_def unf Let_def)
  have c5: "\<exists>w u. top_player e s gid = Some w \<and> find_user s w = Some u
               \<and> find_user ?s' w = Some (u\<lparr>rating := rating u + 5\<rparr>)
               \<and> snd (end_game_with_task e s gid) = Some w"
    if rew: "game_winner_rewarded e s gid"
  proof -
    from rew obtain row rest where ps: "player_stats e s gid = row # rest"
      by (auto simp: game_winner_rewarded_def split: list.splits)
    let ?w = "fst row"
    have tp: "top_player e s gid = Some ?w" by (simp add: top_player_def ps)
    obtain u where u: "find_user s ?w = Some u"
      using player_stats_user[of row e s gid] ps by auto
    have s': "?s' = award_game_victory_points ?s2 ?w"
      using rew by (simp add: end_game_def unf Let_def tp)
    have "find_user ?s2 ?w = Some u" using u by (simp add: find_user_def)
    then have "find_user (award_game_victory_points ?s2 ?w) ?w
                 = Some (u\<lparr>rating := rating u + 5\<rparr>)"
      by (rule award_game_victory_points_rating)
    then have r5: "find_user ?s' ?w = Some (u\<lparr>rating := rating u + 5\<rparr>)"
      unfolding s' .
    have "snd (end_game_with_task e s gid) = Some ?w"
      using rew by (simp add: unf Let_def tp)
    with tp u r5 show ?thesis by blast
  qed
  show ?thesis using c1 c2 c3 c4a c4 c5 c6 c7 award_winner_card_async_adds[of e] by blast
qed


text \<open>
  C3, as stated: the top participant becomes the winner of the game only if they won at
  least one round, and in that case is granted the rating points and a card when
  \<open>end_game\<close> runs. It fails on both counts. In \<open>ex_voting\<close> three users have chosen
  and every count is zero: \<open>end_game\<close> still writes user 1 as the winner of the game (and
  changes no rating). In \<open>ex_tied\<close> user 1 is the winner with a count of one:
  \<open>end_game\<close> returns with the cards of the users as they were, having only created the
  task for user 1.
\<close>

theorem winner_without_wins_counterexample:
  "player_stats ex_env ex_voting 1 = [(1, 0), (2, 0), (3, 0)]
   \<and> fst (end_game ex_env ex_voting 1) = None
   \<and> map game_status (games (snd (end_game ex_env ex_voting 1))) = [FINISHED]
   \<and> map winner_id (games (snd (end_game ex_env ex_voting 1))) = [Some 1]
   \<and> map rating (users (snd (end_game ex_env ex_voting 1))) = [0, 0, 0, 0]
   \<and> player_stats ex_env ex_tied 1 = [(1, 1), (2, 1), (3, 0)]
   \<and> map winner_id (games (snd (end_game ex_env ex_tied 1))) = [Some 1]
   \<and> snd (end_game_with_task ex_env ex_tied 1) = Some 1
   \<and> user_cards (snd (end_game ex_env ex_tied 1)) = user_cards ex_tied"
proof -
  have nr: "\<not> game_winner_rewarded ex_env ex_voting 1"
    by (simp add: game_winner_rewarded_def ex_voting_stats)
  have tp: "top_player ex_env ex_voting 1 = Some 1"
    by (simp add: top_player_def ex_voting_stats)
  have rw: "game_winner_rewarded ex_env ex_tied 1"
    by (simp add: game_winner_rewarded_def ex_tied_stats)
  have tp2: "top_player ex_env ex_tied 1 = Some 1"
    by (simp add: top_player_def ex_tied_stats)
  have u: "map rating (users ex_voting) = [0, 0, 0, 0]"
    and g: "games ex_voting = [ex_game_voting]" "games ex_tied = [ex_game_voting]"
    by (simp_all add: ex_tied_def ex_voting_def ex_selecting_def ex_lobby_def ex_user_def
        ex_game_voting_def)
  have a: "fst (end_game ex_env ex_voting 1) = None
     \<and> map game_status (games (snd (end_game ex_env ex_voting 1))) = [FINISHED]
     \<and> map winner_id (games (snd (end_game ex_env ex_voting 1))) = [Some 1]
     \<and> map rating (users (snd (end_game ex_env ex_voting 1))) = [0, 0, 0, 0]"
    using nr tp u g
    by (simp add: end_game_def end_game_unfold[OF ex_voting_game] Let_def update_game_def
        ex_game_voting_def)
  have b: "map winner_id (games (snd (end_game ex_env ex_tied 1))) = [Some 1]
     \<and> snd (end_game_with_task ex_env ex_tied 1) = Some 1
     \<and> user_cards (snd (end_game ex_env ex_tied 1)) = user_cards ex_tied"
    using rw tp2 g
    by (simp add: end_game_def end_game_unfold[OF ex_tied_game] Let_def update_game_def
        ex_game_voting_def)
  show ?thesis using a b by (simp add: ex_voting_stats ex_tied_stats)
qed

theorem end_game_winner_and_reward_witness:
  "game_winner_rewarded ex_env ex_tied 1
   \<and> top_player ex_env ex_tied 1 = Some 1
   \<and> map_sum id game_status (get_game_or_404 (snd (end_game ex_env ex_tied 1)) 1) = Inr FINISHED
   \<and> map_sum id winner_id (get_game_or_404 (snd (end_game ex_env ex_tied 1)) 1) = Inr (Some 1)
   \<and> map_option room_status (find_room (snd (end_game ex_env ex_tied 1)) 10) = Some RoomFINISHED
   \<and> find_user (snd (end_game ex_env ex_tied 1)) 1 = Some ((ex_user 1 ''alice'')\<lparr>rating := 5\<rparr>)
   \<and> snd (end_game_with_task ex_env ex_tied 1) = Some 1
   \<and> length (user_cards (snd (end_game ex_env ex_tied 1))) = 3
   \<and> length (user_cards (award_winner_card_async ex_env (snd (end_game ex_env ex_tied 1)) 1)) = 4"
proof -
  have rew: "game_winner_rewarded ex_env ex_tied 1"
    by (simp add: game_winner_rewarded_def ex_tied_stats)
  have tp: "top_player ex_env ex_tied 1 = Some 1"
    by (simp add: top_player_def ex_tied_stats)
  have u: "find_user ex_tied 1 = Some (ex_user 1 ''alice'')" by (rule ex_tied_users)
  have r0: "rating (ex_user 1 ''alice'') = 0" by (simp add: ex_user_def)
  have rm: "find_room ex_tied (game_room_id ex_game_voting)
              = Some (ex_room\<lparr>room_status := RoomPLAYING\<rparr>)"
    by (simp add: find_room_def ex_tied_def ex_voting_def ex_selecting_def ex_lobby_def
        ex_room_def ex_game_voting_def)
  have n: "length (user_cards ex_tied) = 3"
    by (simp add: ex_tied_def ex_voting_def ex_selecting_def ex_lobby_def)
  have gr: "game_room_id ex_game_voting = 10" by (simp add: ex_game_voting_def)
  note main = end_game_winner_and_reward[OF ex_tied_game, of ex_env]
  from main have uc: "user_cards (snd (end_game ex_env ex_tied 1)) = user_cards ex_tied"
    by blast
  have "get_available_standard_cards_for_user ex_env ex_tied 1 \<noteq> []"
    by (simp add: get_available_standard_cards_for_user_def ex_env_def ex_tied_def ex_voting_def
        ex_selecting_def ex_lobby_def)
  then have av: "get_available_standard_cards_for_user ex_env (snd (end_game ex_env ex_tied 1)) 1
                   \<noteq> []"
    using available_cards_cong[OF uc, of ex_env 1] by simp
  from main have "\<forall>t w. (get_available_standard_cards_for_user ex_env t w = []
                    \<and> user_cards (award_winner_card_async ex_env t w) = user_cards t)
                \<or> (\<exists>n. n \<in> set (standard_cards ex_env)
                      \<and> find (\<lambda>c. uc_user_id c = w \<and> uc_card_type c = ''standard''
                                    \<and> uc_card_number c = n) (user_cards t) = None
                      \<and> user_cards (award_winner_card_async ex_env t w) = user_cards t @
                          [\<lparr>uc_id = next_card_id t, uc_user_id = w,
                            uc_card_type = ''standard'', uc_card_number = n,
                            obtained_at = now ex_env\<rparr>])"
    by blast
  from this[rule_format, of "snd (end_game ex_env ex_tied 1)" 1] av uc n
  have card: "length (user_cards (award_winner_card_async ex_env (snd (end_game ex_env ex_tied 1)) 1)) = 4"
    by auto
  from main rew tp u r0 rm n gr uc card
  show ?thesis by auto
qed

subsection \<open>A timer of an earlier round\<close>

lemma ex_tied_query_at:
  "vote_counts_query (ex_env_at t) ex_tied 1 = vote_counts_query ex_env ex_tied 1"
  by (simp add: vote_counts_query_def ex_env_at_def)

lemma ex_results_shown_eq:
  "close_round (ex_env_at 1100) ex_tied ex_game_voting 1 = ex_results_shown"
  unfolding close_round_def ex_tied_query_at ex_tied_query
  by (simp add: award_round_points_def ex_choice_def)
     (simp add: find_user_def update_user_def update_game_def update_round_def
       ex_results_shown_def ex_env_at_def ex_env_def
       ex_game_voting_def ex_tied_def ex_voting_def ex_selecting_def ex_lobby_def ex_user_def
       ex_round_def)

lemma ex_second_round_eq:
  "start_round ((ex_env_at 1100)\<lparr>now := now (ex_env_at 1100) + seconds RESULTS_DISPLAY_TIME\<rparr>)
     ex_results_shown 1 None = (None, ex_second_round)"
  by (simp add: start_round_def get_game_or_404_def cleanup_inactive_players_def
      get_active_players_def find_user_def find_room_def round_duration_def update_game_def
      Let_def CARD_SELECTION_TIMEOUT_def VOTING_TIMEOUT_def RESULTS_DISPLAY_TIME_def
      MAX_DISCONNECT_COUNT_def MAX_MISSED_ACTIONS_def seconds_def
      ex_second_round_def ex_results_shown_def ex_env_at_def ex_env_def ex_game_voting_def
      ex_tied_def ex_voting_def ex_selecting_def ex_lobby_def ex_room_def ex_participant_def
      ex_user_def ex_round_def)

lemma ex_second_round_reached:
  "calculate_round_results (ex_env_at 1100) ex_tied 1 = (None, ex_second_round)"
proof -
  have g: "get_game_or_404 ex_results_shown 1
             = Inr (ex_game_voting\<lparr>game_status := ROUND_RESULTS\<rparr>)"
    by (simp add: ex_results_shown_def get_game_or_404_def ex_game_voting_def)
  have "calculate_round_results (ex_env_at 1100) ex_tied 1
          = (None, schedule_next_round (ex_env_at 1100) ex_results_shown 1 2)"
    by (simp add: calculate_round_results_def ex_tied_lookup ex_results_shown_eq)
       (simp add: ex_game_voting_def ex_round_def)
  moreover have "schedule_next_round (ex_env_at 1100) ex_results_shown 1 2 = ex_second_round"
    using g by (simp add: schedule_next_round_def Let_def ex_second_round_eq)
  ultimately show ?thesis by simp
qed

lemma ex_stale_selection_timer:
  "handle_selection_timeout (ex_env_at 1300) ex_second_round 1
     = ex_second_round\<lparr>games := [ex_game_voting\<lparr>game_status := VOTING, current_round := 3\<rparr>]\<rparr>"
  by (simp add: handle_selection_timeout_def get_round_or_404_def find_round_def
      get_game_or_404_def get_active_players_def find_user_def round_choices_def
      record_missed_def start_voting_def update_game_def Let_def
      ex_second_round_def ex_results_shown_def ex_game_voting_def
      ex_tied_def ex_voting_def ex_selecting_def ex_lobby_def ex_participant_def
      ex_user_def ex_round_def ex_choice_def)

text \<open>
  C7: the code at an input of the claim. The round with id 1 has left card selection
  (its voting was started and its results were computed at 1100 s), and the game has gone
  on to the card selection of the next round. When the selection timer of round 1 fires at
  its deadline, 1300 s, the handler finds the game in card selection, takes the round for
  still selecting and starts the voting for round 1: the game goes to \<open>voting\<close> while
  the players of the current round are still choosing. The handler is not a no-op.
\<close>

theorem stale_selection_timer_changes_game:
  "calculate_round_results (ex_env_at 1100) ex_tied 1 = (None, ex_second_round)
   \<and> map round_id (rounds ex_second_round) = [1, 2]
   \<and> map selection_deadline (rounds ex_second_round) = [Some (seconds 1300), Some (seconds 1400)]
   \<and> map game_status (games ex_second_round) = [CARD_SELECTION]
   \<and> map game_status (games (handle_selection_timeout (ex_env_at 1300) ex_second_round 1))
       = [VOTING]"
  by (simp add: ex_second_round_reached ex_stale_selection_timer)
     (simp add: ex_second_round_def ex_results_shown_def ex_game_voting_def ex_round_def)

end
